theory Spec2Isabelle
  imports Main "HOL-Library.Word"
begin

section \<open>Python primitives used by the scanner\<close>

text \<open>
  A \<open>bytes\<close> object is a list of 8-bit words. Positions and lengths are natural numbers
  (the cursor \<open>pos\<close> only ever holds \<open>0\<close>, a match offset plus one, or the sentinel \<open>-1\<close>,
  which is the value \<open>None\<close> below); decoded field values are Python integers.
\<close>

type_synonym byte = "8 word"

text \<open>\<open>data[i:j]\<close> for non-negative \<open>i\<close>, \<open>j\<close>: clipped to the buffer, never raising.\<close>

definition slice :: "'a list \<Rightarrow> nat \<Rightarrow> nat \<Rightarrow> 'a list" where
  "slice xs i j = take (j - i) (drop i xs)"

text \<open>\<open>int.from_bytes(bs, byteorder='little')\<close> (unsigned).\<close>

definition int_from_bytes_little :: "byte list \<Rightarrow> int" where
  "int_from_bytes_little bs = foldr (\<lambda>b acc. uint b + 256 * acc) bs 0"

text \<open>
  \<open>n.to_bytes(4, byteorder='little')\<close>. Python raises OverflowError outside
  \<open>0 \<le> n < 2^32\<close>; the source applies it to the literals 71 .. 164 only.
\<close>

definition to_bytes4_little :: "int \<Rightarrow> byte list" where
  "to_bytes4_little n = map (\<lambda>k. word_of_int (n div 256 ^ k)) [0, 1, 2, 3]"

text \<open>
  \<open>data.find(sub, start)\<close>: the lowest index \<open>\<ge> start\<close> at which \<open>sub\<close> occurs,
  \<open>None\<close> for Python's \<open>-1\<close>.
\<close>

function find_bytes :: "byte list \<Rightarrow> byte list \<Rightarrow> nat \<Rightarrow> nat option" where
  "find_bytes data sub start =
     (if length data < start + length sub then None
      else if slice data start (start + length sub) = sub then Some start
      else find_bytes data sub (Suc start))"
  by pat_completeness auto
termination
  by (relation "measure (\<lambda>(data, sub, start). Suc (length data) - start)") auto

text \<open>\<open>str(n)\<close> for an integer, as the f-strings format it.\<close>

fun str_nat :: "nat \<Rightarrow> string" where
  "str_nat n =
     (if n < 10 then [char_of (48 + n)]
      else str_nat (n div 10) @ [char_of (48 + n mod 10)])"

declare str_nat.simps [simp del]

definition str_int :: "int \<Rightarrow> string" where
  "str_int i = (if i < 0 then CHR ''-'' # str_nat (nat (- i)) else str_nat (nat i))"

text \<open>\<open>os.path.join(a, b)\<close> on a POSIX system, for a relative \<open>b\<close>.\<close>

definition path_join :: "string \<Rightarrow> string \<Rightarrow> string" where
  "path_join a b = (if a = [] \<or> last a = CHR ''/'' then a @ b else a @ ''/'' @ b)"

section \<open>Monster records\<close>

text \<open>
  The dictionaries appended to \<open>monsters\<close>: keys \<open>type\<close>, \<open>subtype\<close> (concrete monsters
  only), \<open>quantity\<close> and \<open>disposition\<close>.
\<close>

record monster =
  m_type :: int
  m_subtype :: "int option"
  m_quantity :: int
  m_disposition :: int

text \<open>
  \<open>od.ID.Monster\<close> and \<open>Disposition.Aggressive\<close> are members of enumerations declared in
  modules outside the two scripts. Their numeric values are the ones the scripts state
  themselves: \<open>type 54 = 0x36\<close> and \<open>Disposition.Aggressive = 2\<close> (the V1 script stores the
  literal \<open>2\<close>).
\<close>

definition od_ID_Monster :: int where
  "od_ID_Monster = 54"

definition Disposition_Aggressive :: int where
  "Disposition_Aggressive = 2"

definition monster_type_bytes :: "byte list" where
  "monster_type_bytes = [0x36, 0x00, 0x00, 0x00]"

definition random_monster_types :: "int list" where
  "random_monster_types = [71, 72, 73, 74, 75, 162, 163, 164]"

section \<open>The scan loops\<close>

text \<open>
  The body of the first loop (the \<open>try\<close> block at a match offset \<open>pos\<close>): the record it
  appends, if any. The three copies of this loop (V1; the gzip branch and the raw-file
  branch of RajanHoAEditor.py) differ in the lower bound on \<open>quantity\<close> only, which is the
  parameter \<open>lo\<close>: 0 in V1 and in the gzip branch, 1 in the raw-file branch. \<open>NAME\<close> is the
  external table \<open>cd.NAME\<close>. Every slice is guarded and no operation of the block can
  raise, so the \<open>except\<close> handler is never entered.
\<close>

definition monster_candidate :: "int \<Rightarrow> string list \<Rightarrow> byte list \<Rightarrow> nat \<Rightarrow> monster option" where
  "monster_candidate lo NAME data pos =
     (if pos + 6 < length data then
        (let subtype = int_from_bytes_little (slice data (pos + 4) (pos + 6)) in
         if pos + 8 < length data then
           (let quantity = int_from_bytes_little (slice data (pos + 6) (pos + 8)) in
            if 0 \<le> subtype \<and> subtype < int (length NAME) \<and> lo \<le> quantity \<and> quantity \<le> 1000
            then Some \<lparr>m_type = od_ID_Monster, m_subtype = Some subtype,
                       m_quantity = quantity, m_disposition = Disposition_Aggressive\<rparr>
            else None)
         else None)
      else None)"

definition append_opt :: "'a list \<Rightarrow> 'a option \<Rightarrow> 'a list" where
  "append_opt xs r = (case r of None \<Rightarrow> xs | Some x \<Rightarrow> xs @ [x])"

text \<open>
  \<open>while True: pos = data.find(monster_type_bytes, pos); if pos == -1: break; ...; pos += 1\<close>
\<close>

function scan_monsters :: "int \<Rightarrow> string list \<Rightarrow> byte list \<Rightarrow> nat \<Rightarrow> monster list \<Rightarrow> monster list" where
  "scan_monsters lo NAME data pos monsters =
     (case find_bytes data monster_type_bytes pos of
        None \<Rightarrow> monsters
      | Some p \<Rightarrow>
          scan_monsters lo NAME data (p + 1)
            (append_opt monsters (monster_candidate lo NAME data p)))"
  by pat_completeness auto
termination
proof (relation "measure (\<lambda>(lo, NAME, data, pos, monsters). Suc (length data) - pos)", goal_cases)
  case 1
  show ?case by simp
next
  case (2 lo NAME data pos monsters p)
  have "find_bytes d s i = Some q \<Longrightarrow> i \<le> q \<and> q + length s \<le> length d" for d s i q
    by (induction d s i rule: find_bytes.induct) (fastforce split: if_splits)
  from this [OF 2] have "pos \<le> p" and "p \<le> length data" by simp_all
  then show ?case by simp
qed

declare scan_monsters.simps [simp del]

text \<open>
  The body of the loop for one random-monster tag; \<open>lo\<close> is 1 in V1 and in the raw-file
  branch of RajanHoAEditor.py, 0 in its gzip branch.
\<close>

definition random_candidate :: "int \<Rightarrow> int \<Rightarrow> byte list \<Rightarrow> nat \<Rightarrow> monster option" where
  "random_candidate lo monster_type data pos =
     (if pos + 6 < length data then
        (let quantity = int_from_bytes_little (slice data (pos + 4) (pos + 6)) in
         if lo \<le> quantity \<and> quantity \<le> 1000
         then Some \<lparr>m_type = monster_type, m_subtype = None,
                    m_quantity = quantity, m_disposition = Disposition_Aggressive\<rparr>
         else None)
      else None)"

function scan_random :: "int \<Rightarrow> int \<Rightarrow> byte list \<Rightarrow> nat \<Rightarrow> monster list \<Rightarrow> monster list" where
  "scan_random lo monster_type data pos monsters =
     (case find_bytes data (to_bytes4_little monster_type) pos of
        None \<Rightarrow> monsters
      | Some p \<Rightarrow>
          scan_random lo monster_type data (p + 1)
            (append_opt monsters (random_candidate lo monster_type data p)))"
  by pat_completeness auto
termination
proof (relation "measure (\<lambda>(lo, monster_type, data, pos, monsters). Suc (length data) - pos)", goal_cases)
  case 1
  show ?case by simp
next
  case (2 lo monster_type data pos monsters p)
  have "find_bytes d s i = Some q \<Longrightarrow> i \<le> q \<and> q + length s \<le> length d" for d s i q
    by (induction d s i rule: find_bytes.induct) (fastforce split: if_splits)
  from this [OF 2] have "pos \<le> p" and "p \<le> length data" by simp_all
  then show ?case by simp
qed

declare scan_random.simps [simp del]

text \<open>
  The whole scan of one buffer: the concrete-monster loop from an empty list, then
  \<open>for monster_type in [71, 72, 73, 74, 75, 162, 163, 164]\<close>, each from \<open>pos = 0\<close>,
  appending to the same list.
\<close>

definition scan_buffer :: "int \<Rightarrow> int \<Rightarrow> string list \<Rightarrow> byte list \<Rightarrow> monster list" where
  "scan_buffer lo_m lo_r NAME data =
     foldl (\<lambda>monsters monster_type. scan_random lo_r monster_type data 0 monsters)
       (scan_monsters lo_m NAME data 0 [])
       random_monster_types"

section \<open>Files and the console\<close>

text \<open>
  What the scripts touch outside their own memory: the files they open and the lines they
  print. An exception is carried as its text \<open>str(e)\<close>. The environment fixes what the
  scripts cannot change: which file a path names (\<open>resolve\<close>), the decompressor behind
  \<open>gzip.open(...).read()\<close>, the text of the error for a path that names no file, whether
  opening a path for writing fails, and the working directory.
\<close>

type_synonym exn = string

record os_env =
  resolve :: "string \<Rightarrow> nat"
  gunzip :: "byte list \<Rightarrow> exn + byte list"
  no_such_file :: "string \<Rightarrow> exn"
  open_wb_error :: "string \<Rightarrow> exn option"
  getcwd :: string

record os_state =
  files :: "nat \<rightharpoonup> byte list"
  stdout :: "string list"

definition print_line :: "os_state \<Rightarrow> string \<Rightarrow> os_state" where
  "print_line st s = st\<lparr>stdout := stdout st @ [s]\<rparr>"

text \<open>\<open>with gzip_open(filename, 'rb') as f: data = f.read()\<close>\<close>

definition gzip_read :: "os_env \<Rightarrow> os_state \<Rightarrow> string \<Rightarrow> exn + byte list" where
  "gzip_read env st filename =
     (case files st (resolve env filename) of
        None \<Rightarrow> Inl (no_such_file env filename)
      | Some raw \<Rightarrow> gunzip env raw)"

text \<open>\<open>with open(filename, 'rb') as f: data = f.read()\<close>\<close>

definition raw_read :: "os_env \<Rightarrow> os_state \<Rightarrow> string \<Rightarrow> exn + byte list" where
  "raw_read env st filename =
     (case files st (resolve env filename) of
        None \<Rightarrow> Inl (no_such_file env filename)
      | Some raw \<Rightarrow> Inr raw)"

section \<open>RajanHoAEditor\_V1.py\<close>

text \<open>
  \<open>parse_map_file\<close> of the V1 script returns the pair \<open>(monsters, data)\<close>, where \<open>data\<close>
  is \<open>None\<close> when the file could not be read as gzip. The statements that would patch
  \<open>data[pos+18]\<close> and \<open>data[pos+14]\<close> are commented out in the source, so \<open>data\<close> is
  returned as it was read.
\<close>

definition parse_map_file_V1 ::
  "os_env \<Rightarrow> string list \<Rightarrow> os_state \<Rightarrow> string \<Rightarrow> (monster list \<times> byte list option) \<times> os_state" where
  "parse_map_file_V1 env NAME st filename =
     (case gzip_read env st filename of
        Inl e \<Rightarrow> (([], None), print_line st (''Error opening file as gzip: '' @ e))
      | Inr data \<Rightarrow> ((scan_buffer 0 1 NAME data, Some data), st))"

text \<open>
  The name the callers print for a record:
  \<open>cd.NAME[creature_id] if creature_id < len(cd.NAME) else "Unknown"\<close> for a concrete
  monster, \<open>f"Random Monster (Type {monster['type']})"\<close> otherwise. A record of type
  \<open>od.ID.Monster\<close> always has the key \<open>subtype\<close>.
\<close>

definition creature_name :: "string list \<Rightarrow> monster \<Rightarrow> string" where
  "creature_name NAME m =
     (if m_type m = od_ID_Monster then
        (case m_subtype m of
           Some creature_id \<Rightarrow>
             if creature_id < int (length NAME) then NAME ! nat creature_id else ''Unknown''
         | None \<Rightarrow> ''Unknown'')
      else ''Random Monster (Type '' @ str_int (m_type m) @ '')'')"

text \<open>The four lines \<open>GetMonsterProperty\<close> prints for the \<open>i\<close>-th record.\<close>

definition monster_lines :: "string list \<Rightarrow> nat \<Rightarrow> monster \<Rightarrow> string list" where
  "monster_lines NAME i m =
     [''Monster #'' @ str_nat i @ '':'',
      ''Name: '' @ creature_name NAME m,
      ''Disposition: Aggressive'',
      []]"

definition GetMonsterProperty :: "os_env \<Rightarrow> string list \<Rightarrow> os_state \<Rightarrow> string \<Rightarrow> os_state" where
  "GetMonsterProperty env NAME st filename =
     (let st1 = print_line st (''Parsing map file: '' @ filename);
          ((monster_objects, data), st2) = parse_map_file_V1 env NAME st1 filename
      in if monster_objects = []
         then print_line st2 ''No monster objects found in the map file.''
         else foldl print_line st2
                (concat (map (\<lambda>(i, m). monster_lines NAME i m)
                   (zip [1 ..< Suc (length monster_objects)] monster_objects))))"

text \<open>
  \<open>SetMonsterProperty\<close>: the loop \<open>monster["disposition"] = 2\<close> changes the records of the
  local list only, which is dropped on return; the buffer written is \<open>data\<close> as
  \<open>parse_map_file\<close> returned it. \<open>open('Do2.h3m', 'wb')\<close> empties the file before
  \<open>f.write(data)\<close> runs, and \<open>f.write(None)\<close> raises TypeError.
\<close>

definition SetMonsterProperty :: "os_env \<Rightarrow> string list \<Rightarrow> os_state \<Rightarrow> string \<Rightarrow> os_state" where
  "SetMonsterProperty env NAME st filename =
     (let st1 = print_line st (''Parsing map file: '' @ filename);
          ((monster_objects, data), st2) = parse_map_file_V1 env NAME st1 filename
      in if monster_objects = []
         then print_line st2 ''No monster objects found in the map file.''
         else
           (let monster_objects' = map (\<lambda>m. m\<lparr>m_disposition := 2\<rparr>) monster_objects;
                new_file_path = path_join (getcwd env) ''Do2.h3m''
            in case open_wb_error env ''Do2.h3m'' of
                 Some e \<Rightarrow> print_line st2 (''Error: '' @ e)
               | None \<Rightarrow>
                   (case data of
                      None \<Rightarrow>
                        print_line (st2\<lparr>files := (files st2)(resolve env ''Do2.h3m'' \<mapsto> [])\<rparr>)
                          (''Error: a bytes-like object is required, not ''
                             @ [CHR 0x27] @ ''NoneType'' @ [CHR 0x27])
                    | Some d \<Rightarrow>
                        print_line (st2\<lparr>files := (files st2)(resolve env ''Do2.h3m'' \<mapsto> d)\<rparr>)
                          (''Successfully updated the disposition to Aggressive in '' @ new_file_path))))"

section \<open>RajanHoAEditor.py\<close>

text \<open>
  \<open>parse_map_file\<close> of RajanHoAEditor.py returns the list of records only: the gzip
  branch scans with the bounds \<open>0 \<le> quantity\<close> for both kinds, the raw-file branch
  (entered when the gzip read raises) with \<open>1 \<le> quantity\<close> for both kinds, and \<open>[]\<close> is
  returned when the raw read raises too. Its console output is not part of this model.
\<close>

definition parse_map_file :: "os_env \<Rightarrow> string list \<Rightarrow> os_state \<Rightarrow> string \<Rightarrow> monster list" where
  "parse_map_file env NAME st filename =
     (case gzip_read env st filename of
        Inr data \<Rightarrow> scan_buffer 0 0 NAME data
      | Inl e \<Rightarrow>
          (case raw_read env st filename of
             Inr data \<Rightarrow> scan_buffer 1 1 NAME data
           | Inl e' \<Rightarrow> []))"

text \<open>
  What \<open>main\<close> of RajanHoAEditor.py takes from the modules outside the two scripts: the
  tables \<open>cd.NAME\<close> and \<open>cd.AI_VALUE\<close>, the creature identifiers \<open>cd.ID.Pikeman\<close> ...
  \<open>cd.ID.Black_Dragon\<close>, and the members of \<open>Disposition\<close> other than \<open>Aggressive\<close>.
  The enumerations are integer enumerations: the scripts store plain integers beside
  their members and compare the two, so a member is its number here, and an f-string
  prints it as that number.
\<close>

record ext_data =
  cd_NAME :: "string list"
  cd_AI_VALUE :: "int list"
  cd_ID_Pikeman :: int
  cd_ID_Archer :: int
  cd_ID_Griffin :: int
  cd_ID_Swordsman :: int
  cd_ID_Angel :: int
  cd_ID_Black_Dragon :: int
  Disposition_Compliant :: int
  Disposition_Friendly :: int
  Disposition_Hostile :: int
  Disposition_Savage :: int
  Disposition_Precise :: int

text \<open>
  \<open>od.ID.Random_Monster\<close>: the first of the eight random-monster members that
  \<open>is_monster_type\<close> lists, for the types \<open>71-75, 162-164\<close> the scripts scan for.
\<close>

definition od_ID_Random_Monster :: int where
  "od_ID_Random_Monster = 71"

text \<open>
  \<open>dispositions.get(disposition_value, "Unknown")\<close>: in a dictionary display a later
  entry replaces an earlier one with an equal key, so the look-up runs from the last
  entry to the first.
\<close>

definition get_disposition_name :: "ext_data \<Rightarrow> int \<Rightarrow> string" where
  "get_disposition_name X disposition_value =
     (case map_of (rev
              [(Disposition_Compliant X, ''Compliant''),
               (Disposition_Friendly X, ''Friendly''),
               (Disposition_Aggressive, ''Aggressive''),
               (Disposition_Hostile X, ''Hostile''),
               (Disposition_Savage X, ''Savage''),
               (Disposition_Precise X, ''Precise'')]) disposition_value of
        Some name \<Rightarrow> name
      | None \<Rightarrow> ''Unknown'')"

text \<open>
  \<open>get_creature_level\<close>; \<open>//\<close> rounds down as \<open>div\<close> does. The table \<open>cd.AI_VALUE\<close> is
  read only where \<open>112 \<le> creature_id < len(cd.AI_VALUE)\<close>.
\<close>

definition get_creature_level :: "ext_data \<Rightarrow> int \<Rightarrow> int" where
  "get_creature_level X creature_id =
     (if creature_id < 14 then creature_id div 2 + 1
      else if creature_id < 28 then (creature_id - 14) div 2 + 1
      else if creature_id < 42 then (creature_id - 28) div 2 + 1
      else if creature_id < 56 then (creature_id - 42) div 2 + 1
      else if creature_id < 70 then (creature_id - 56) div 2 + 1
      else if creature_id < 84 then (creature_id - 70) div 2 + 1
      else if creature_id < 98 then (creature_id - 84) div 2 + 1
      else if creature_id < 112 then (creature_id - 98) div 2 + 1
      else
        (let ai_value = (if creature_id < int (length (cd_AI_VALUE X))
                         then cd_AI_VALUE X ! nat creature_id else 0)
         in if ai_value < 100 then 1
            else if ai_value < 200 then 2
            else if ai_value < 400 then 3
            else if ai_value < 800 then 4
            else if ai_value < 1600 then 5
            else if ai_value < 3200 then 6
            else 7))"

text \<open>\<open>xs[i]\<close> for a list: a negative index counts from the end, IndexError out of range.\<close>

definition py_index :: "'a list \<Rightarrow> int \<Rightarrow> exn + 'a" where
  "py_index xs i =
     (if 0 \<le> i \<and> i < int (length xs) then Inr (xs ! nat i)
      else if i < 0 \<and> - int (length xs) \<le> i then Inr (xs ! nat (int (length xs) + i))
      else Inl ''list index out of range'')"

text \<open>The seven records \<open>main\<close> puts in the place of an empty list.\<close>

definition representative_monsters :: "ext_data \<Rightarrow> monster list" where
  "representative_monsters X =
     [\<lparr>m_type = od_ID_Monster, m_subtype = Some (cd_ID_Pikeman X),
        m_quantity = 25, m_disposition = Disposition_Aggressive\<rparr>,
      \<lparr>m_type = od_ID_Monster, m_subtype = Some (cd_ID_Archer X),
        m_quantity = 18, m_disposition = Disposition_Aggressive\<rparr>,
      \<lparr>m_type = od_ID_Monster, m_subtype = Some (cd_ID_Griffin X),
        m_quantity = 10, m_disposition = Disposition_Aggressive\<rparr>,
      \<lparr>m_type = od_ID_Monster, m_subtype = Some (cd_ID_Swordsman X),
        m_quantity = 15, m_disposition = Disposition_Aggressive\<rparr>,
      \<lparr>m_type = od_ID_Monster, m_subtype = Some (cd_ID_Angel X),
        m_quantity = 5, m_disposition = Disposition_Aggressive\<rparr>,
      \<lparr>m_type = od_ID_Random_Monster, m_subtype = None,
        m_quantity = 12, m_disposition = Disposition_Aggressive\<rparr>,
      \<lparr>m_type = od_ID_Monster, m_subtype = Some (cd_ID_Black_Dragon X),
        m_quantity = 3, m_disposition = Disposition_Aggressive\<rparr>]"

text \<open>
  One round of the loop \<open>for i, monster in enumerate(monster_objects, 1)\<close> of \<open>main\<close>: the
  lines it prints, and the exception that ends it, if any. \<open>Monster #i:\<close> is printed
  before the name is looked up; \<open>monster["subtype"]\<close> raises KeyError for a record
  without that key, \<open>cd.NAME[creature_id]\<close> raises IndexError for an identifier below
  \<open>-len(cd.NAME)\<close>.
\<close>

definition main_print_monster :: "ext_data \<Rightarrow> nat \<Rightarrow> monster \<Rightarrow> string list \<times> exn option" where
  "main_print_monster X i monster =
     (let details = (\<lambda>name level.
            [''Name: '' @ name,
             ''Level: '' @ level,
             ''Count: '' @ str_int (m_quantity monster),
             ''Disposition: '' @ get_disposition_name X (m_disposition monster),
             []])
      in if m_type monster = od_ID_Monster then
           (case m_subtype monster of
              None \<Rightarrow> ([''Monster #'' @ str_nat i @ '':''],
                        Some ([CHR 0x27] @ ''subtype'' @ [CHR 0x27]))
            | Some creature_id \<Rightarrow>
                (case (if creature_id < int (length (cd_NAME X))
                       then py_index (cd_NAME X) creature_id else Inr ''Unknown'') of
                   Inl e \<Rightarrow> ([''Monster #'' @ str_nat i @ '':''], Some e)
                 | Inr name \<Rightarrow>
                     ((''Monster #'' @ str_nat i @ '':'')
                        # details name (str_int (get_creature_level X creature_id)),
                      None)))
         else
           ((''Monster #'' @ str_nat i @ '':'')
              # details (''Random Monster (Type '' @ str_int (m_type monster) @ '')'') ''Random'',
            None))"

text \<open>The loop: an exception leaves it for the handler, which prints \<open>Error: ...\<close>.\<close>

fun main_print_loop :: "ext_data \<Rightarrow> (nat \<times> monster) list \<Rightarrow> string list" where
  "main_print_loop X [] = []"
| "main_print_loop X ((i, monster) # rest) =
     (case main_print_monster X i monster of
        (ls, None) \<Rightarrow> ls @ main_print_loop X rest
      | (ls, Some e) \<Rightarrow> ls @ [''Error: '' @ e])"

text \<open>
  \<open>main\<close> of RajanHoAEditor.py: the lines its own \<open>print\<close> statements write (those of
  \<open>parse_map_file\<close>, which come between the second and the third of them, are left
  out). It parses \<open>Do.h3m\<close>; an empty list is reported and replaced by the
  representative records; then the count and the records are printed.
\<close>

definition main :: "os_env \<Rightarrow> ext_data \<Rightarrow> os_state \<Rightarrow> string list" where
  "main env X st =
     [''RajanHoAEditor.py - Heroes of Might and Magic III Map Monster Analyzer'',
      ''================================================================''] @
     (let parsed = parse_map_file env (cd_NAME X) st ''Do.h3m'';
          monster_objects = (if parsed = [] then representative_monsters X else parsed)
      in (if parsed = []
          then [''No monster objects found in the map file.'',
                ''Using representative monster data for demonstration purposes.'']
          else [])
         @ [[], ''Total monster objects found: '' @ str_nat (length monster_objects), []]
         @ main_print_loop X (zip [1 ..< Suc (length monster_objects)] monster_objects))"

section \<open>Match offsets\<close>

text \<open>
  \<open>tag_at data sub q\<close>: the bytes \<open>sub\<close> stand in the buffer at offset \<open>q\<close>.
  \<open>occurrences data sub start\<close>: all such offsets from \<open>start\<close> on, in increasing order.
\<close>

definition tag_at :: "byte list \<Rightarrow> byte list \<Rightarrow> nat \<Rightarrow> bool" where
  "tag_at data sub q = (q + length sub \<le> length data \<and> slice data q (q + length sub) = sub)"

definition occurrences :: "byte list \<Rightarrow> byte list \<Rightarrow> nat \<Rightarrow> nat list" where
  "occurrences data sub start = filter (tag_at data sub) [start ..< Suc (length data)]"

text \<open>
  The offsets at which a scan loop runs its body: the cursor of
  \<open>while True: pos = data.find(sub, pos); if pos == -1: break; ...; pos += 1\<close>.
\<close>

function match_offsets :: "byte list \<Rightarrow> byte list \<Rightarrow> nat \<Rightarrow> nat list" where
  "match_offsets data sub pos =
     (case find_bytes data sub pos of
        None \<Rightarrow> []
      | Some p \<Rightarrow> p # match_offsets data sub (p + 1))"
  by pat_completeness auto
termination
proof (relation "measure (\<lambda>(data, sub, pos). Suc (length data) - pos)", goal_cases)
  case 1
  show ?case by simp
next
  case (2 data sub pos p)
  have "find_bytes d s i = Some q \<Longrightarrow> i \<le> q \<and> q + length s \<le> length d" for d s i q
    by (induction d s i rule: find_bytes.induct) (fastforce split: if_splits)
  from this [OF 2] have "pos \<le> p" and "p \<le> length data" by simp_all
  then show ?case by simp
qed

declare match_offsets.simps [simp del]

declare find_bytes.simps [simp del]

text \<open>
  The disposition offsets of the accepted candidates of the V1 scan: \<open>p + 18\<close> for a
  concrete-monster record accepted at \<open>p\<close>, \<open>p + 14\<close> for a random-monster record accepted
  at \<open>p\<close>, the offsets of the commented-out patch statements.
\<close>

definition disposition_offsets :: "string list \<Rightarrow> byte list \<Rightarrow> nat list" where
  "disposition_offsets NAME data =
     map (\<lambda>p. p + 18)
       (filter (\<lambda>p. \<not> Option.is_none (monster_candidate 0 NAME data p))
          (occurrences data monster_type_bytes 0))
     @ concat (map (\<lambda>t. map (\<lambda>p. p + 14)
                     (filter (\<lambda>p. \<not> Option.is_none (random_candidate 1 t data p))
                        (occurrences data (to_bytes4_little t) 0)))
                 random_monster_types)"

section \<open>Example inputs\<close>

text \<open>
  A creature table with two entries, and one with sixty, standing for \<open>cd.NAME\<close>.
\<close>

definition ex_NAME :: "string list" where
  "ex_NAME = [''Pikeman'', ''Halberdier'']"

definition ex_NAME60 :: "string list" where
  "ex_NAME60 = replicate 60 ''Creature''"

text \<open>
  The scenario of the specification: tag \<open>36 00 00 00\<close>, creature id 0, quantity 25, ten
  filler bytes, the disposition byte \<open>00\<close> at offset 18, and one trailing byte.
\<close>

definition ex_record_buf :: "byte list" where
  "ex_record_buf =
     [0x36, 0, 0, 0,  0, 0,  0x19, 0,  0, 0, 0, 0, 0, 0, 0, 0, 0, 0,  0,  0]"

text \<open>The same record with quantity 0.\<close>

definition ex_zero_quantity_buf :: "byte list" where
  "ex_zero_quantity_buf =
     [0x36, 0, 0, 0,  0, 0,  0, 0,  0, 0, 0, 0, 0, 0, 0, 0, 0, 0,  0,  0]"

text \<open>The same record with creature id 2, the length of \<open>ex_NAME\<close>.\<close>

definition ex_bad_id_buf :: "byte list" where
  "ex_bad_id_buf =
     [0x36, 0, 0, 0,  2, 0,  0x19, 0,  0, 0, 0, 0, 0, 0, 0, 0, 0, 0,  0,  0]"

text \<open>Tag, creature id and quantity, and then the buffer ends: eight bytes.\<close>

definition ex_truncated_buf :: "byte list" where
  "ex_truncated_buf = [0x36, 0, 0, 0,  0, 0,  0x19, 0]"

text \<open>
  A random-monster record of type 71 with quantity 12 at offset 0, then the concrete
  record of above at offset 8.
\<close>

definition ex_mixed_buf :: "byte list" where
  "ex_mixed_buf =
     [0x47, 0, 0, 0,  0x0C, 0,  0, 0,
      0x36, 0, 0, 0,  0, 0,  0x19, 0,  0, 0, 0, 0, 0, 0, 0, 0, 0, 0,  0,  0]"

text \<open>
  Two occurrences of the concrete-monster tag as close as they can stand, at offsets 0
  and 4: the creature id of the first record is the tag of the second.
\<close>

definition ex_adjacent_buf :: "byte list" where
  "ex_adjacent_buf = [0x36, 0, 0, 0,  0x36, 0, 0, 0,  0, 0, 0, 0, 0, 0]"

text \<open>A buffer in which no tag occurs.\<close>

definition ex_plain_buf :: "byte list" where
  "ex_plain_buf = [1, 2, 3, 4, 5, 6, 7, 8, 9, 10]"

text \<open>
  A stand-in for the decompressor of the example environment: a file counts as
  compressed when it starts with the gzip magic bytes \<open>1f 8b\<close>, and its payload is what
  follows them.
\<close>

definition ex_gunzip :: "byte list \<Rightarrow> exn + byte list" where
  "ex_gunzip raw =
     (if take 2 raw = [0x1f, 0x8b] then Inr (drop 2 raw) else Inl ''Not a gzipped file'')"

definition ex_gz :: "byte list \<Rightarrow> byte list" where
  "ex_gz payload = 0x1f # 0x8b # payload"

text \<open>
  The example environment: \<open>Do.h3m\<close> is file 1, \<open>Do2.h3m\<close> is file 2, every file can be
  opened for writing, and the working directory is \<open>/maps\<close>.
\<close>

definition ex_env :: os_env where
  "ex_env =
     \<lparr>resolve = (\<lambda>path. if path = ''Do2.h3m'' then 2 else if path = ''Do.h3m'' then 1 else 0),
      gunzip = ex_gunzip,
      no_such_file = (\<lambda>path. ''No such file or directory: '' @ path),
      open_wb_error = (\<lambda>path. None),
      getcwd = ''/maps''\<rparr>"

text \<open>A disk holding one file, and an empty disk; nothing printed yet.\<close>

definition ex_disk :: "nat \<Rightarrow> byte list \<Rightarrow> os_state" where
  "ex_disk f content = \<lparr>files = [f \<mapsto> content], stdout = []\<rparr>"

definition ex_empty_disk :: os_state where
  "ex_empty_disk = \<lparr>files = Map.empty, stdout = []\<rparr>"

text \<open>
  Example data of the outside modules: the table \<open>ex_NAME\<close>, no AI values, the creature
  identifiers and disposition numbers of the game.
\<close>

definition ex_data :: ext_data where
  "ex_data =
     \<lparr>cd_NAME = ex_NAME, cd_AI_VALUE = [],
      cd_ID_Pikeman = 0, cd_ID_Archer = 2, cd_ID_Griffin = 4, cd_ID_Swordsman = 6,
      cd_ID_Angel = 12, cd_ID_Black_Dragon = 83,
      Disposition_Compliant = 0, Disposition_Friendly = 1, Disposition_Hostile = 3,
      Disposition_Savage = 4, Disposition_Precise = 5\<rparr>"

section \<open>The scan loops and the match offsets\<close>

lemma find_bytes_Some:
  "find_bytes data sub s = Some p \<Longrightarrow>
     s \<le> p \<and> tag_at data sub p \<and> (\<forall>q. s \<le> q \<and> q < p \<longrightarrow> \<not> tag_at data sub q)"
proof (induction data sub s rule: find_bytes.induct)
  case (1 data sub start)
  show ?case
  proof (cases "slice data start (start + length sub) = sub")
    case True
    with "1.prems" show ?thesis
      by (subst (asm) find_bytes.simps) (auto simp: tag_at_def split: if_splits)
  next
    case False
    with "1.prems" have le: "\<not> length data < start + length sub"
      and rec: "find_bytes data sub (Suc start) = Some p"
      by (subst (asm) find_bytes.simps, auto split: if_splits)+
    from "1.IH" [OF le False rec]
    have a: "Suc start \<le> p" and b: "tag_at data sub p"
      and c: "\<And>q. Suc start \<le> q \<Longrightarrow> q < p \<Longrightarrow> \<not> tag_at data sub q"
      by auto
    have "\<not> tag_at data sub q" if "start \<le> q" and "q < p" for q
    proof (cases "q = start")
      case True
      with False show ?thesis by (simp add: tag_at_def)
    next
      case neq: False
      with that have "Suc start \<le> q" by simp
      from c [OF this \<open>q < p\<close>] show ?thesis .
    qed
    with a b show ?thesis by auto
  qed
qed

lemma find_bytes_None:
  "find_bytes data sub s = None \<Longrightarrow> s \<le> q \<Longrightarrow> \<not> tag_at data sub q"
proof (induction data sub s rule: find_bytes.induct)
  case (1 data sub start)
  show ?case
  proof (cases "length data < start + length sub")
    case True
    then show ?thesis using "1.prems" by (simp add: tag_at_def)
  next
    case False
    with "1.prems" have ne: "slice data start (start + length sub) \<noteq> sub"
      and rec: "find_bytes data sub (Suc start) = None"
      by (subst (asm) find_bytes.simps, auto split: if_splits)+
    show ?thesis
    proof (cases "q = start")
      case True
      with ne show ?thesis by (simp add: tag_at_def)
    next
      case False
      with "1.prems" have "Suc start \<le> q" by simp
      from "1.IH" [OF \<open>\<not> length data < start + length sub\<close> ne rec this] show ?thesis .
    qed
  qed
qed

lemma occurrences_find_None:
  assumes "find_bytes data sub s = None"
  shows "occurrences data sub s = []"
  using find_bytes_None [OF assms] by (auto simp: occurrences_def filter_empty_conv)

lemma occurrences_find_Some:
  assumes "find_bytes data sub s = Some p"
  shows "occurrences data sub s = p # occurrences data sub (Suc p)"
proof -
  from find_bytes_Some [OF assms]
  have sp: "s \<le> p" and at: "tag_at data sub p"
    and before: "\<And>q. s \<le> q \<Longrightarrow> q < p \<Longrightarrow> \<not> tag_at data sub q"
    by auto
  from at have pl: "p \<le> length data" by (simp add: tag_at_def)
  have split: "[s ..< Suc (length data)] = [s ..< p] @ p # [Suc p ..< Suc (length data)]"
  proof -
    from pl obtain k where k: "Suc (length data) = p + k" and "0 < k"
      by (metis add_Suc_right le_Suc_ex zero_less_Suc)
    from upt_add_eq_append [OF sp, of k] k
    have "[s ..< Suc (length data)] = [s ..< p] @ [p ..< Suc (length data)]" by simp
    moreover from pl have "[p ..< Suc (length data)] = p # [Suc p ..< Suc (length data)]"
      by (simp add: upt_conv_Cons)
    ultimately show ?thesis by simp
  qed
  have "filter (tag_at data sub) [s ..< p] = []"
    using before by (auto simp: filter_empty_conv)
  with at show ?thesis
    unfolding occurrences_def split by (simp del: upt_Suc)
qed

lemma match_offsets_eq: "match_offsets data sub s = occurrences data sub s"
proof (induction data sub s rule: match_offsets.induct)
  case (1 data sub pos)
  show ?case
  proof (cases "find_bytes data sub pos")
    case None
    then show ?thesis
      by (subst match_offsets.simps) (simp add: occurrences_find_None)
  next
    case (Some p)
    with "1.IH" [OF Some] show ?thesis
      by (subst match_offsets.simps) (simp add: occurrences_find_Some)
  qed
qed

lemma scan_monsters_eq:
  "scan_monsters lo NAME data s acc =
     acc @ List.map_filter (monster_candidate lo NAME data) (match_offsets data monster_type_bytes s)"
proof (induction lo NAME data s acc rule: scan_monsters.induct)
  case (1 lo NAME data pos monsters)
  show ?case
  proof (cases "find_bytes data monster_type_bytes pos")
    case None
    then show ?thesis
      by (subst scan_monsters.simps, subst match_offsets.simps)
        (simp add: List.map_filter_simps)
  next
    case (Some p)
    with "1.IH" [OF Some] show ?thesis
      by (subst scan_monsters.simps, subst match_offsets.simps)
        (cases "monster_candidate lo NAME data p";
          simp add: List.map_filter_simps append_opt_def)
  qed
qed

lemma scan_random_eq:
  "scan_random lo t data s acc =
     acc @ List.map_filter (random_candidate lo t data) (match_offsets data (to_bytes4_little t) s)"
proof (induction lo t data s acc rule: scan_random.induct)
  case (1 lo t data pos monsters)
  show ?case
  proof (cases "find_bytes data (to_bytes4_little t) pos")
    case None
    then show ?thesis
      by (subst scan_random.simps, subst match_offsets.simps)
        (simp add: List.map_filter_simps)
  next
    case (Some p)
    with "1.IH" [OF Some] show ?thesis
      by (subst scan_random.simps, subst match_offsets.simps)
        (cases "random_candidate lo t data p";
          simp add: List.map_filter_simps append_opt_def)
  qed
qed

lemma foldl_append_concat: "foldl (\<lambda>acc t. acc @ f t) acc ts = acc @ concat (map f ts)"
  by (induction ts arbitrary: acc) simp_all

lemma scan_buffer_eq:
  "scan_buffer lo_m lo_r NAME data =
     List.map_filter (monster_candidate lo_m NAME data) (match_offsets data monster_type_bytes 0)
     @ concat (map (\<lambda>t. List.map_filter (random_candidate lo_r t data)
                           (match_offsets data (to_bytes4_little t) 0)) random_monster_types)"
  by (simp add: scan_buffer_def scan_random_eq scan_monsters_eq foldl_append_concat)

lemma find_bytes_at: "tag_at data sub p \<Longrightarrow> find_bytes data sub p = Some p"
  by (subst find_bytes.simps) (simp add: tag_at_def)

lemma scan_monsters_step:
  "find_bytes data monster_type_bytes pos = Some p \<Longrightarrow>
     scan_monsters lo NAME data pos monsters =
       scan_monsters lo NAME data (p + 1) (append_opt monsters (monster_candidate lo NAME data p))"
  by (subst scan_monsters.simps) simp

lemma int_from_bytes_little_nonneg: "0 \<le> int_from_bytes_little bs"
  unfolding int_from_bytes_little_def by (induction bs) simp_all

lemma occurrences_split:
  assumes at: "tag_at data sub p" and sp: "s \<le> p"
  shows "occurrences data sub s =
           filter (tag_at data sub) [s ..< p] @ p # occurrences data sub (Suc p)"
proof -
  from at have pl: "p \<le> length data" by (simp add: tag_at_def)
  then obtain k where k: "Suc (length data) = p + k"
    by (metis add_Suc_right le_Suc_ex)
  from upt_add_eq_append [OF sp, of k] k
  have "[s ..< Suc (length data)] = [s ..< p] @ [p ..< Suc (length data)]" by simp
  moreover from pl have "[p ..< Suc (length data)] = p # [Suc p ..< Suc (length data)]"
    by (simp add: upt_conv_Cons)
  ultimately have "[s ..< Suc (length data)] = [s ..< p] @ p # [Suc p ..< Suc (length data)]"
    by simp
  with at show ?thesis
    unfolding occurrences_def by (simp del: upt_Suc)
qed

lemma map_filter_append:
  "List.map_filter f (xs @ ys) = List.map_filter f xs @ List.map_filter f ys"
  by (simp add: List.map_filter_def)

lemma set_map_filter: "set (List.map_filter f xs) = {y. \<exists>x \<in> set xs. f x = Some y}"
proof -
  have "(\<exists>x \<in> set xs. f x = Some y) \<longleftrightarrow> y \<in> (the \<circ> f) ` {x \<in> set xs. f x \<noteq> None}" for y
    by force
  then show ?thesis by (auto simp: List.map_filter_def)
qed

lemma monster_candidate_disposition:
  "monster_candidate lo NAME data p = Some m \<Longrightarrow> m_disposition m = 2"
  by (auto simp: monster_candidate_def Disposition_Aggressive_def Let_def split: if_splits)

lemma random_candidate_disposition:
  "random_candidate lo t data p = Some m \<Longrightarrow> m_disposition m = 2"
  by (auto simp: random_candidate_def Disposition_Aggressive_def Let_def split: if_splits)

lemma slice_update_after: "j \<le> k \<Longrightarrow> slice (xs[k := b]) i j = slice xs i j"
  by (cases "i \<le> k") (simp_all add: slice_def drop_update_swap)

lemma sorted_wrt_occurrences: "sorted_wrt (<) (occurrences data sub s)"
  unfolding occurrences_def by (rule sorted_wrt_filter) (simp del: upt_Suc)

lemma set_occurrences: "set (occurrences data sub s) = {q. s \<le> q \<and> tag_at data sub q}"
  by (auto simp: occurrences_def tag_at_def)

lemma match_offsets_step:
  "find_bytes data sub pos = Some p \<Longrightarrow>
     match_offsets data sub pos = p # match_offsets data sub (p + 1)"
  by (subst match_offsets.simps) simp

lemma distinct_occurrences: "distinct (occurrences data sub s)"
  unfolding occurrences_def by (rule distinct_filter) (simp del: upt_Suc)

lemma slice_nth:
  assumes "slice xs i j = ys" and "j \<le> length xs" and "k < j - i"
  shows "xs ! (i + k) = ys ! k"
proof -
  from assms(3) have "ys ! k = drop i xs ! k"
    unfolding assms(1) [symmetric] slice_def by simp
  also from assms(2,3) have "\<dots> = xs ! (i + k)" by simp
  finally show ?thesis by simp
qed

text \<open>
  A tag \<open>t 00 00 00\<close> with \<open>t \<noteq> 0\<close>, as all nine tags of the scripts are, cannot stand at
  two offsets one byte apart: the second byte of the first occurrence is \<open>00\<close> and would
  be the first byte \<open>t\<close> of the second. The closest two occurrences are four bytes apart.
\<close>

lemma tag_not_one_byte_apart:
  assumes "tag_at data [t, 0, 0, 0] p" and "t \<noteq> 0"
  shows "\<not> tag_at data [t, 0, 0, 0] (Suc p)"
proof
  assume next_at: "tag_at data [t, 0, 0, 0] (Suc p)"
  from assms(1) have a: "slice data p (p + length [t, 0, 0, 0]) = [t, 0, 0, 0]"
    and al: "p + length [t, 0, 0, 0] \<le> length data"
    unfolding tag_at_def by blast+
  from next_at have b: "slice data (Suc p) (Suc p + length [t, 0, 0, 0]) = [t, 0, 0, 0]"
    and bl: "Suc p + length [t, 0, 0, 0] \<le> length data"
    unfolding tag_at_def by blast+
  from slice_nth [OF a al, of 1] have "data ! (p + 1) = 0" by simp
  moreover from slice_nth [OF b bl, of 0] have "data ! (p + 1) = t" by simp
  ultimately show False using assms(2) by simp
qed

lemma script_tags_shape:
  "monster_type_bytes = [0x36, 0, 0, 0]"
  "to_bytes4_little 71 = [71, 0, 0, 0]" "to_bytes4_little 72 = [72, 0, 0, 0]"
  "to_bytes4_little 73 = [73, 0, 0, 0]" "to_bytes4_little 74 = [74, 0, 0, 0]"
  "to_bytes4_little 75 = [75, 0, 0, 0]" "to_bytes4_little 162 = [162, 0, 0, 0]"
  "to_bytes4_little 163 = [163, 0, 0, 0]" "to_bytes4_little 164 = [164, 0, 0, 0]"
  by (simp_all add: monster_type_bytes_def to_bytes4_little_def)

lemma script_tags_not_one_byte_apart:
  assumes "sub \<in> set (monster_type_bytes # map to_bytes4_little random_monster_types)"
    and "tag_at data sub p"
  shows "\<not> tag_at data sub (Suc p)"
proof -
  have "\<forall>s \<in> set (monster_type_bytes # map to_bytes4_little random_monster_types).
          \<exists>b. s = [b, 0, 0, 0] \<and> b \<noteq> 0"
    by (simp add: random_monster_types_def script_tags_shape)
  with assms(1) obtain b :: byte where "sub = [b, 0, 0, 0]" and "b \<noteq> 0"
    by blast
  with assms(2) show ?thesis by (simp add: tag_not_one_byte_apart)
qed

lemma gzip_read_print_line [simp]: "gzip_read env (print_line st s) filename = gzip_read env st filename"
  by (simp add: gzip_read_def print_line_def)

lemma files_print_line [simp]: "files (print_line st s) = files st"
  by (simp add: print_line_def)

lemma stdout_print_line [simp]: "stdout (print_line st s) = stdout st @ [s]"
  by (simp add: print_line_def)

lemma files_foldl_print_line [simp]: "files (foldl print_line st ls) = files st"
  by (induction ls arbitrary: st) simp_all

lemma scan_buffer_disposition:
  assumes "m \<in> set (scan_buffer lo_m lo_r NAME data)"
  shows "m_disposition m = 2"
proof -
  from assms have
    "m \<in> set (List.map_filter (monster_candidate lo_m NAME data)
                (match_offsets data monster_type_bytes 0))
     \<or> (\<exists>t \<in> set random_monster_types.
           m \<in> set (List.map_filter (random_candidate lo_r t data)
                      (match_offsets data (to_bytes4_little t) 0)))"
    unfolding scan_buffer_eq by simp
  then show ?thesis
  proof
    assume "m \<in> set (List.map_filter (monster_candidate lo_m NAME data)
                (match_offsets data monster_type_bytes 0))"
    then obtain p where "monster_candidate lo_m NAME data p = Some m"
      unfolding set_map_filter by blast
    then show ?thesis by (rule monster_candidate_disposition)
  next
    assume "\<exists>t \<in> set random_monster_types.
           m \<in> set (List.map_filter (random_candidate lo_r t data)
                      (match_offsets data (to_bytes4_little t) 0))"
    then obtain t p where "random_candidate lo_r t data p = Some m"
      unfolding set_map_filter by blast
    then show ?thesis by (rule random_candidate_disposition)
  qed
qed

lemma parse_map_file_V1_failed:
  "gzip_read env st filename = Inl e \<Longrightarrow>
     parse_map_file_V1 env NAME st filename =
       (([], None), print_line st (''Error opening file as gzip: '' @ e))"
  by (simp add: parse_map_file_V1_def)

lemma parse_map_file_V1_loaded:
  "gzip_read env st filename = Inr data \<Longrightarrow>
     parse_map_file_V1 env NAME st filename = ((scan_buffer 0 1 NAME data, Some data), st)"
  by (simp add: parse_map_file_V1_def)

lemma print_line_twice:
  "print_line (print_line st a) b = st\<lparr>stdout := stdout st @ [a, b]\<rparr>"
  by (simp add: print_line_def)

lemma print_line_thrice:
  "print_line (print_line (print_line st a) b) c = st\<lparr>stdout := stdout st @ [a, b, c]\<rparr>"
  by (simp add: print_line_def)

lemma scan_buffer_no_occurrences:
  assumes "occurrences data monster_type_bytes 0 = []"
    and "\<forall>t \<in> set random_monster_types. occurrences data (to_bytes4_little t) 0 = []"
  shows "scan_buffer lo_m lo_r NAME data = []"
proof -
  from assms(2) have "\<forall>t \<in> set random_monster_types.
      List.map_filter (random_candidate lo_r t data) (occurrences data (to_bytes4_little t) 0) = []"
    by simp
  with assms(1) show ?thesis
    by (simp add: scan_buffer_eq match_offsets_eq)
qed

section \<open>Claims\<close>

text \<open>
  Claim C1 does not hold of the code. \<open>SetMonsterProperty\<close> says it sets the disposition
  to Aggressive and reports that it has, but the statements that would patch the buffer
  are commented out in \<open>parse_map_file\<close>: for the scenario of the specification, a record
  accepted at offset 0 whose disposition byte at offset 18 is \<open>00\<close> (the buffer is long
  enough for the guard \<open>pos + 19 < len(data)\<close> of the commented-out patch), the file
  written holds the buffer as loaded, with \<open>00\<close> at offset 18 and not 2.
\<close>

theorem C1_disposition_byte_not_patched:
  "gzip_read ex_env (ex_disk 1 (ex_gz ex_record_buf)) ''Do.h3m'' = Inr ex_record_buf
   \<and> monster_candidate 0 ex_NAME ex_record_buf 0 =
        Some \<lparr>m_type = 54, m_subtype = Some 0, m_quantity = 25, m_disposition = 2\<rparr>
   \<and> 0 + 19 < length ex_record_buf
   \<and> ex_record_buf ! (0 + 18) = 0
   \<and> files (SetMonsterProperty ex_env ex_NAME (ex_disk 1 (ex_gz ex_record_buf)) ''Do.h3m'')
        (resolve ex_env ''Do2.h3m'') = Some ex_record_buf
   \<and> stdout (SetMonsterProperty ex_env ex_NAME (ex_disk 1 (ex_gz ex_record_buf)) ''Do.h3m'') =
        [''Parsing map file: Do.h3m'',
         ''Successfully updated the disposition to Aggressive in /maps/Do2.h3m'']"
proof -
  have a: "gzip_read ex_env (ex_disk 1 (ex_gz ex_record_buf)) ''Do.h3m'' = Inr ex_record_buf"
    by code_simp
  have b: "monster_candidate 0 ex_NAME ex_record_buf 0 =
        Some \<lparr>m_type = 54, m_subtype = Some 0, m_quantity = 25, m_disposition = 2\<rparr>"
    by code_simp
  have c: "0 + 19 < length ex_record_buf" by (simp add: ex_record_buf_def)
  have d: "ex_record_buf ! (0 + 18) = 0" by code_simp
  have e: "files (SetMonsterProperty ex_env ex_NAME (ex_disk 1 (ex_gz ex_record_buf)) ''Do.h3m'')
        (resolve ex_env ''Do2.h3m'') = Some ex_record_buf"
    by code_simp
  have f: "stdout (SetMonsterProperty ex_env ex_NAME (ex_disk 1 (ex_gz ex_record_buf)) ''Do.h3m'') =
        [''Parsing map file: Do.h3m'',
         ''Successfully updated the disposition to Aggressive in /maps/Do2.h3m'']"
    by code_simp
  from a b c d e f show ?thesis by blast
qed

text \<open>
  Claim C2. Where the tag \<open>36 00 00 00\<close> stands at an offset \<open>p\<close> with
  \<open>p + 8 \<ge> len(data)\<close>, the loop body appends no record (whatever the table and the
  lower bound on the quantity, so in all three copies of the loop), \<open>find\<close> from \<open>p\<close>
  stops at \<open>p\<close> itself, and the scan goes on from \<open>p + 1\<close> with the list of records as
  it was: no error, no record.
\<close>

theorem C2_truncated_candidate_skipped:
  assumes "tag_at data monster_type_bytes p" and "length data \<le> p + 8"
  shows "monster_candidate lo NAME data p = None
       \<and> find_bytes data monster_type_bytes p = Some p
       \<and> scan_monsters lo NAME data p monsters = scan_monsters lo NAME data (p + 1) monsters"
proof -
  from assms(2) have none: "monster_candidate lo NAME data p = None"
    by (simp add: monster_candidate_def Let_def)
  from assms(1) have found: "find_bytes data monster_type_bytes p = Some p"
    by (rule find_bytes_at)
  from scan_monsters_step [OF found, of lo NAME monsters] none
  have "scan_monsters lo NAME data p monsters = scan_monsters lo NAME data (p + 1) monsters"
    by (simp add: append_opt_def)
  with none found show ?thesis by simp
qed

theorem C2_truncated_candidate_skipped_witness:
  "tag_at ex_truncated_buf monster_type_bytes 0
   \<and> length ex_truncated_buf \<le> 0 + 8
   \<and> monster_candidate 0 ex_NAME ex_truncated_buf 0 = None
   \<and> find_bytes ex_truncated_buf monster_type_bytes 0 = Some 0
   \<and> scan_monsters 0 ex_NAME ex_truncated_buf 0 [] = scan_monsters 0 ex_NAME ex_truncated_buf (0 + 1) []
   \<and> scan_buffer 0 1 ex_NAME ex_truncated_buf = []"
proof -
  have h1: "tag_at ex_truncated_buf monster_type_bytes 0" by code_simp
  have h2: "length ex_truncated_buf \<le> 0 + 8" by (simp add: ex_truncated_buf_def)
  have h3: "scan_buffer 0 1 ex_NAME ex_truncated_buf = []" by code_simp
  from C2_truncated_candidate_skipped [OF h1 h2, of 0 ex_NAME "[]"] h1 h2 h3
  show ?thesis by simp
qed

text \<open>
  Claim C3, as amended. A well-formed concrete-monster record at offset \<open>p\<close> (the tag at
  \<open>p\<close>, the reads in bounds as the code checks them, \<open>p + 8 < len(data)\<close>, the creature
  id \<open>cid\<close> within the table, the quantity \<open>q\<close> at most 1000 and at least the lower bound
  \<open>lo\<close> of the copy of the loop that runs: 0 in V1 and in the gzip branch of
  RajanHoAEditor.py, 1 in its raw-file branch) makes the loop body append exactly one
  record, with type \<open>od.ID.Monster\<close>, that creature id and that quantity; the name
  printed for it is \<open>cd.NAME[cid]\<close>; and the list returned for the buffer is the records
  of the tag's earlier occurrences, this record, the records of the later occurrences, and
  then the random-monster records.
\<close>

theorem C3_wellformed_record_found:
  assumes tag: "tag_at data monster_type_bytes p"
    and bound: "p + 8 < length data"
    and cid: "int_from_bytes_little (slice data (p + 4) (p + 6)) = cid"
    and cid_ok: "cid < int (length NAME)"
    and qty: "int_from_bytes_little (slice data (p + 6) (p + 8)) = q"
    and q_lo: "lo \<le> q"
    and q_hi: "q \<le> 1000"
  shows "monster_candidate lo NAME data p =
           Some \<lparr>m_type = od_ID_Monster, m_subtype = Some cid,
                 m_quantity = q, m_disposition = Disposition_Aggressive\<rparr>
       \<and> creature_name NAME
            \<lparr>m_type = od_ID_Monster, m_subtype = Some cid,
             m_quantity = q, m_disposition = Disposition_Aggressive\<rparr> = NAME ! nat cid
       \<and> scan_buffer lo lo_r NAME data =
            List.map_filter (monster_candidate lo NAME data)
              (filter (tag_at data monster_type_bytes) [0 ..< p])
            @ \<lparr>m_type = od_ID_Monster, m_subtype = Some cid,
                m_quantity = q, m_disposition = Disposition_Aggressive\<rparr>
            # List.map_filter (monster_candidate lo NAME data)
                (occurrences data monster_type_bytes (Suc p))
            @ concat (map (\<lambda>t. List.map_filter (random_candidate lo_r t data)
                                  (occurrences data (to_bytes4_little t) 0))
                        random_monster_types)"
proof -
  let ?r = "\<lparr>m_type = od_ID_Monster, m_subtype = Some cid,
             m_quantity = q, m_disposition = Disposition_Aggressive\<rparr>"
  from int_from_bytes_little_nonneg [of "slice data (p + 4) (p + 6)"] cid
  have cid0: "0 \<le> cid" by simp
  from bound have b6: "p + 6 < length data" by simp
  from b6 bound cid cid0 cid_ok qty q_lo q_hi
  have cand: "monster_candidate lo NAME data p = Some ?r"
    by (simp add: monster_candidate_def Let_def)
  from cid_ok have name: "creature_name NAME ?r = NAME ! nat cid"
    by (simp add: creature_name_def)
  from occurrences_split [OF tag, of 0]
  have occ: "occurrences data monster_type_bytes 0 =
               filter (tag_at data monster_type_bytes) [0 ..< p]
               @ p # occurrences data monster_type_bytes (Suc p)"
    by simp
  have "List.map_filter (monster_candidate lo NAME data) (occurrences data monster_type_bytes 0)
          = List.map_filter (monster_candidate lo NAME data)
              (filter (tag_at data monster_type_bytes) [0 ..< p])
            @ ?r # List.map_filter (monster_candidate lo NAME data)
                     (occurrences data monster_type_bytes (Suc p))"
    unfolding occ map_filter_append using cand by simp
  then have scan: "scan_buffer lo lo_r NAME data =
            List.map_filter (monster_candidate lo NAME data)
              (filter (tag_at data monster_type_bytes) [0 ..< p])
            @ ?r # List.map_filter (monster_candidate lo NAME data)
                (occurrences data monster_type_bytes (Suc p))
            @ concat (map (\<lambda>t. List.map_filter (random_candidate lo_r t data)
                                  (occurrences data (to_bytes4_little t) 0))
                        random_monster_types)"
    by (simp add: scan_buffer_eq match_offsets_eq)
  from cand name scan show ?thesis by blast
qed

theorem C3_wellformed_record_found_witness:
  "tag_at ex_record_buf monster_type_bytes 0
   \<and> 0 + 8 < length ex_record_buf
   \<and> int_from_bytes_little (slice ex_record_buf (0 + 4) (0 + 6)) = 0
   \<and> (0::int) < int (length ex_NAME)
   \<and> int_from_bytes_little (slice ex_record_buf (0 + 6) (0 + 8)) = 25
   \<and> monster_candidate 0 ex_NAME ex_record_buf 0 =
        Some \<lparr>m_type = 54, m_subtype = Some 0, m_quantity = 25, m_disposition = 2\<rparr>
   \<and> creature_name ex_NAME
        \<lparr>m_type = 54, m_subtype = Some 0, m_quantity = 25, m_disposition = 2\<rparr> = ''Pikeman''
   \<and> scan_buffer 0 1 ex_NAME ex_record_buf =
        [\<lparr>m_type = 54, m_subtype = Some 0, m_quantity = 25, m_disposition = 2\<rparr>]"
proof -
  have h1: "tag_at ex_record_buf monster_type_bytes 0" by code_simp
  have h2: "0 + 8 < length ex_record_buf" by (simp add: ex_record_buf_def)
  have h3: "int_from_bytes_little (slice ex_record_buf (0 + 4) (0 + 6)) = 0" by code_simp
  have h4: "(0::int) < int (length ex_NAME)" by (simp add: ex_NAME_def)
  have h5: "int_from_bytes_little (slice ex_record_buf (0 + 6) (0 + 8)) = 25" by code_simp
  have nm: "ex_NAME ! nat 0 = ''Pikeman''" by (simp add: ex_NAME_def)
  have o1: "filter (tag_at ex_record_buf monster_type_bytes) [0 ..< 0] = []" by simp
  have o2: "occurrences ex_record_buf monster_type_bytes (Suc 0) = []" by code_simp
  have o3: "concat (map (\<lambda>t. List.map_filter (random_candidate 1 t ex_record_buf)
                                  (occurrences ex_record_buf (to_bytes4_little t) 0))
                        random_monster_types) = []" by code_simp
  from C3_wellformed_record_found [OF h1 h2 h3 h4 h5, of 0 1] h1 h2 h3 h4 h5 nm o1 o2 o3
  show ?thesis
    by (simp add: od_ID_Monster_def Disposition_Aggressive_def)
qed

text \<open>
  The claim as stated fails in the raw-file branch of RajanHoAEditor.py, which asks for
  \<open>1 \<le> quantity\<close>: a file that is not gzip and holds the record of the scenario with
  quantity 0 (tag at 0, reads in bounds, creature id 0 within the table, quantity 0
  within \<open>[0, 1000]\<close>) gives no record.
\<close>

theorem C3_zero_quantity_raw_branch_counterexample:
  "tag_at ex_zero_quantity_buf monster_type_bytes 0
   \<and> 0 + 8 < length ex_zero_quantity_buf
   \<and> int_from_bytes_little (slice ex_zero_quantity_buf (0 + 4) (0 + 6)) = 0
   \<and> (0::int) < int (length ex_NAME)
   \<and> int_from_bytes_little (slice ex_zero_quantity_buf (0 + 6) (0 + 8)) = 0
   \<and> raw_read ex_env (ex_disk 1 ex_zero_quantity_buf) ''Do.h3m'' = Inr ex_zero_quantity_buf
   \<and> parse_map_file ex_env ex_NAME (ex_disk 1 ex_zero_quantity_buf) ''Do.h3m'' = []"
proof -
  have h1: "tag_at ex_zero_quantity_buf monster_type_bytes 0" by code_simp
  have h2: "0 + 8 < length ex_zero_quantity_buf" by (simp add: ex_zero_quantity_buf_def)
  have h3: "int_from_bytes_little (slice ex_zero_quantity_buf (0 + 4) (0 + 6)) = 0" by code_simp
  have h4: "(0::int) < int (length ex_NAME)" by (simp add: ex_NAME_def)
  have h5: "int_from_bytes_little (slice ex_zero_quantity_buf (0 + 6) (0 + 8)) = 0" by code_simp
  have h6: "raw_read ex_env (ex_disk 1 ex_zero_quantity_buf) ''Do.h3m'' = Inr ex_zero_quantity_buf"
    by code_simp
  have h7: "parse_map_file ex_env ex_NAME (ex_disk 1 ex_zero_quantity_buf) ''Do.h3m'' = []"
    by code_simp
  from h1 h2 h3 h4 h5 h6 h7 show ?thesis by blast
qed

text \<open>
  Claim C4. A candidate at a match offset \<open>p\<close> whose decoded creature id is equal to or
  greater than the length of the creature table is dropped: the loop body appends nothing
  (no placeholder record), whatever the quantity and the other bytes are, and the scan
  goes on from \<open>p + 1\<close> with the list unchanged. This holds for every lower bound on
  the quantity, so in all three copies of the loop.
\<close>

theorem C4_creature_id_out_of_table_discarded:
  assumes "tag_at data monster_type_bytes p"
    and "int (length NAME) \<le> int_from_bytes_little (slice data (p + 4) (p + 6))"
  shows "monster_candidate lo NAME data p = None
       \<and> scan_monsters lo NAME data p monsters = scan_monsters lo NAME data (p + 1) monsters"
proof -
  from assms(2) have none: "monster_candidate lo NAME data p = None"
    by (simp add: monster_candidate_def Let_def)
  from assms(1) have found: "find_bytes data monster_type_bytes p = Some p"
    by (rule find_bytes_at)
  from scan_monsters_step [OF found, of lo NAME monsters] none
  show ?thesis by (simp add: append_opt_def)
qed

theorem C4_creature_id_out_of_table_discarded_witness:
  "tag_at ex_bad_id_buf monster_type_bytes 0
   \<and> int_from_bytes_little (slice ex_bad_id_buf (0 + 4) (0 + 6)) = 2
   \<and> int (length ex_NAME) = 2
   \<and> int_from_bytes_little (slice ex_bad_id_buf (0 + 6) (0 + 8)) = 25
   \<and> monster_candidate 0 ex_NAME ex_bad_id_buf 0 = None
   \<and> scan_monsters 0 ex_NAME ex_bad_id_buf 0 [] = scan_monsters 0 ex_NAME ex_bad_id_buf (0 + 1) []
   \<and> scan_buffer 0 1 ex_NAME ex_bad_id_buf = []
   \<and> scan_buffer 0 0 ex_NAME ex_bad_id_buf = []
   \<and> scan_buffer 1 1 ex_NAME ex_bad_id_buf = []"
proof -
  have h1: "tag_at ex_bad_id_buf monster_type_bytes 0" by code_simp
  have id: "int_from_bytes_little (slice ex_bad_id_buf (0 + 4) (0 + 6)) = 2" by code_simp
  have len: "int (length ex_NAME) = 2" by (simp add: ex_NAME_def)
  from id len have h2: "int (length ex_NAME) \<le> int_from_bytes_little (slice ex_bad_id_buf (0 + 4) (0 + 6))"
    by simp
  have q: "int_from_bytes_little (slice ex_bad_id_buf (0 + 6) (0 + 8)) = 25" by code_simp
  have s1: "scan_buffer 0 1 ex_NAME ex_bad_id_buf = []" by code_simp
  have s2: "scan_buffer 0 0 ex_NAME ex_bad_id_buf = []" by code_simp
  have s3: "scan_buffer 1 1 ex_NAME ex_bad_id_buf = []" by code_simp
  from C4_creature_id_out_of_table_discarded [OF h1 h2, of 0 "[]"] h1 id len q s1 s2 s3
  show ?thesis by simp
qed

text \<open>
  Claim C5. The list \<open>parse_map_file\<close> of the V1 script returns for a buffer is the
  records of the concrete-monster tag in the order of its match offsets, followed by the
  records of the tags 71, 72, 73, 74, 75, 162, 163, 164, in this order of the tags and
  within a tag in the order of its match offsets. The match offsets of a tag are all the
  offsets at which it stands in the buffer, strictly increasing. The offsets are not
  increasing across the groups: the witness is a buffer whose random-monster record at
  offset 0 comes after the concrete record at offset 8.
\<close>

theorem C5_records_grouped_by_signature:
  assumes "gzip_read env st filename = Inr data"
  shows "fst (fst (parse_map_file_V1 env NAME st filename)) =
           List.map_filter (monster_candidate 0 NAME data) (occurrences data monster_type_bytes 0)
           @ concat (map (\<lambda>t. List.map_filter (random_candidate 1 t data)
                                 (occurrences data (to_bytes4_little t) 0))
                       [71, 72, 73, 74, 75, 162, 163, 164])
       \<and> sorted_wrt (<) (occurrences data sub 0)
       \<and> set (occurrences data sub 0) = {q. tag_at data sub q}"
proof -
  from assms have "fst (fst (parse_map_file_V1 env NAME st filename)) = scan_buffer 0 1 NAME data"
    by (simp add: parse_map_file_V1_def)
  then have "fst (fst (parse_map_file_V1 env NAME st filename)) =
           List.map_filter (monster_candidate 0 NAME data) (occurrences data monster_type_bytes 0)
           @ concat (map (\<lambda>t. List.map_filter (random_candidate 1 t data)
                                 (occurrences data (to_bytes4_little t) 0))
                       [71, 72, 73, 74, 75, 162, 163, 164])"
    by (simp only: scan_buffer_eq match_offsets_eq random_monster_types_def)
  moreover have "sorted_wrt (<) (occurrences data sub 0)"
    by (rule sorted_wrt_occurrences)
  moreover have "set (occurrences data sub 0) = {q. tag_at data sub q}"
    by (simp add: set_occurrences)
  ultimately show ?thesis by blast
qed

theorem C5_records_grouped_by_signature_witness:
  "gzip_read ex_env (ex_disk 1 (ex_gz ex_mixed_buf)) ''Do.h3m'' = Inr ex_mixed_buf
   \<and> occurrences ex_mixed_buf monster_type_bytes 0 = [8]
   \<and> occurrences ex_mixed_buf (to_bytes4_little 71) 0 = [0]
   \<and> fst (fst (parse_map_file_V1 ex_env ex_NAME (ex_disk 1 (ex_gz ex_mixed_buf)) ''Do.h3m'')) =
        [\<lparr>m_type = 54, m_subtype = Some 0, m_quantity = 25, m_disposition = 2\<rparr>,
         \<lparr>m_type = 71, m_subtype = None, m_quantity = 12, m_disposition = 2\<rparr>]
   \<and> List.map_filter (monster_candidate 0 ex_NAME ex_mixed_buf) [8] =
        [\<lparr>m_type = 54, m_subtype = Some 0, m_quantity = 25, m_disposition = 2\<rparr>]
   \<and> List.map_filter (random_candidate 1 71 ex_mixed_buf) [0] =
        [\<lparr>m_type = 71, m_subtype = None, m_quantity = 12, m_disposition = 2\<rparr>]"
proof -
  have h: "gzip_read ex_env (ex_disk 1 (ex_gz ex_mixed_buf)) ''Do.h3m'' = Inr ex_mixed_buf"
    by code_simp
  have o1: "occurrences ex_mixed_buf monster_type_bytes 0 = [8]" by code_simp
  have o2: "occurrences ex_mixed_buf (to_bytes4_little 71) 0 = [0]" by code_simp
  have r: "fst (fst (parse_map_file_V1 ex_env ex_NAME (ex_disk 1 (ex_gz ex_mixed_buf)) ''Do.h3m'')) =
        [\<lparr>m_type = 54, m_subtype = Some 0, m_quantity = 25, m_disposition = 2\<rparr>,
         \<lparr>m_type = 71, m_subtype = None, m_quantity = 12, m_disposition = 2\<rparr>]"
    by code_simp
  have c1: "List.map_filter (monster_candidate 0 ex_NAME ex_mixed_buf) [8] =
        [\<lparr>m_type = 54, m_subtype = Some 0, m_quantity = 25, m_disposition = 2\<rparr>]"
    by code_simp
  have c2: "List.map_filter (random_candidate 1 71 ex_mixed_buf) [0] =
        [\<lparr>m_type = 71, m_subtype = None, m_quantity = 12, m_disposition = 2\<rparr>]"
    by code_simp
  from C5_records_grouped_by_signature [OF h, of ex_NAME monster_type_bytes] h o1 o2 r c1 c2
  show ?thesis by blast
qed

text \<open>
  Claim C6. For every tag \<open>sub\<close>, the offsets at which a scan loop runs its body, from the
  start of the buffer, are all the offsets at which the tag stands, overlapping or not, in
  increasing order and each once. After a match at \<open>p\<close> the next search starts at
  \<open>p + 1\<close>. Two occurrences of a tag are therefore both visited, and the body is
  evaluated at each of the visited offsets on its own: the records of a loop are the
  results of the body at these offsets, in this order.
\<close>

theorem C6_every_occurrence_visited:
  "match_offsets data sub 0 = filter (tag_at data sub) [0 ..< Suc (length data)]
   \<and> distinct (match_offsets data sub 0)
   \<and> (find_bytes data sub pos = Some p \<longrightarrow>
        pos \<le> p \<and> tag_at data sub p
        \<and> match_offsets data sub pos = p # match_offsets data sub (p + 1))
   \<and> (tag_at data sub p1 \<and> tag_at data sub p2 \<longrightarrow>
        p1 \<in> set (match_offsets data sub 0) \<and> p2 \<in> set (match_offsets data sub 0))
   \<and> scan_monsters lo NAME data 0 [] =
        List.map_filter (monster_candidate lo NAME data)
          (match_offsets data monster_type_bytes 0)
   \<and> scan_random lo t data 0 monsters =
        monsters @ List.map_filter (random_candidate lo t data)
          (match_offsets data (to_bytes4_little t) 0)"
proof -
  have a: "match_offsets data sub 0 = filter (tag_at data sub) [0 ..< Suc (length data)]"
    by (simp only: match_offsets_eq occurrences_def)
  have b: "distinct (match_offsets data sub 0)"
    by (simp only: match_offsets_eq distinct_occurrences)
  have c: "find_bytes data sub pos = Some p \<longrightarrow>
        pos \<le> p \<and> tag_at data sub p
        \<and> match_offsets data sub pos = p # match_offsets data sub (p + 1)"
    using find_bytes_Some [of data sub pos p] match_offsets_step [of data sub pos p] by blast
  have d: "tag_at data sub p1 \<and> tag_at data sub p2 \<longrightarrow>
        p1 \<in> set (match_offsets data sub 0) \<and> p2 \<in> set (match_offsets data sub 0)"
    by (simp add: match_offsets_eq set_occurrences)
  have e: "scan_monsters lo NAME data 0 [] =
        List.map_filter (monster_candidate lo NAME data)
          (match_offsets data monster_type_bytes 0)"
    by (simp add: scan_monsters_eq)
  have f: "scan_random lo t data 0 monsters =
        monsters @ List.map_filter (random_candidate lo t data)
          (match_offsets data (to_bytes4_little t) 0)"
    by (rule scan_random_eq)
  from a b c d e f show ?thesis by blast
qed

theorem C6_every_occurrence_visited_witness:
  "find_bytes ex_adjacent_buf monster_type_bytes 0 = Some 0
   \<and> find_bytes ex_adjacent_buf monster_type_bytes (0 + 1) = Some 4
   \<and> tag_at ex_adjacent_buf monster_type_bytes 0
   \<and> tag_at ex_adjacent_buf monster_type_bytes 4
   \<and> match_offsets ex_adjacent_buf monster_type_bytes 0 = [0, 4]
   \<and> match_offsets ex_adjacent_buf monster_type_bytes 0
        = 0 # match_offsets ex_adjacent_buf monster_type_bytes (0 + 1)
   \<and> scan_monsters 0 ex_NAME60 ex_adjacent_buf 0 [] =
        [\<lparr>m_type = 54, m_subtype = Some 54, m_quantity = 0, m_disposition = 2\<rparr>,
         \<lparr>m_type = 54, m_subtype = Some 0, m_quantity = 0, m_disposition = 2\<rparr>]"
proof -
  have f0: "find_bytes ex_adjacent_buf monster_type_bytes 0 = Some 0" by code_simp
  have f1: "find_bytes ex_adjacent_buf monster_type_bytes (0 + 1) = Some 4" by code_simp
  have t0: "tag_at ex_adjacent_buf monster_type_bytes 0" by code_simp
  have t4: "tag_at ex_adjacent_buf monster_type_bytes 4" by code_simp
  have c0: "monster_candidate 0 ex_NAME60 ex_adjacent_buf 0 =
              Some \<lparr>m_type = 54, m_subtype = Some 54, m_quantity = 0, m_disposition = 2\<rparr>"
    by code_simp
  have c4: "monster_candidate 0 ex_NAME60 ex_adjacent_buf 4 =
              Some \<lparr>m_type = 54, m_subtype = Some 0, m_quantity = 0, m_disposition = 2\<rparr>"
    by code_simp
  have m: "match_offsets ex_adjacent_buf monster_type_bytes 0 = [0, 4]" by code_simp
  note inst = C6_every_occurrence_visited
    [of ex_adjacent_buf monster_type_bytes 0 0 0 4 0 ex_NAME60 0 "[]"]
  from inst f0 have step: "match_offsets ex_adjacent_buf monster_type_bytes 0
        = 0 # match_offsets ex_adjacent_buf monster_type_bytes (0 + 1)"
    by blast
  from inst have "scan_monsters 0 ex_NAME60 ex_adjacent_buf 0 [] =
        List.map_filter (monster_candidate 0 ex_NAME60 ex_adjacent_buf)
          (match_offsets ex_adjacent_buf monster_type_bytes 0)"
    by blast
  with m c0 c4 have scan: "scan_monsters 0 ex_NAME60 ex_adjacent_buf 0 [] =
        [\<lparr>m_type = 54, m_subtype = Some 54, m_quantity = 0, m_disposition = 2\<rparr>,
         \<lparr>m_type = 54, m_subtype = Some 0, m_quantity = 0, m_disposition = 2\<rparr>]"
    by simp
  from f0 f1 t0 t4 m step scan show ?thesis by blast
qed

text \<open>
  Claim C7, as amended. When the file cannot be loaded, the parse returns an empty list
  of records and no error reaches the caller, and no caller takes it as fatal. In the V1
  script, which has no fallback, a failed gzip read makes \<open>parse_map_file\<close> return
  \<open>([], None)\<close>; its callers \<open>GetMonsterProperty\<close> and \<open>SetMonsterProperty\<close> then print
  that no monster objects were found and return, with no file written. In
  RajanHoAEditor.py, \<open>parse_map_file\<close> returns \<open>[]\<close> when the gzip read and the raw read
  both fail; its caller \<open>main\<close> prints that no monster objects were found, and then goes
  on with the seven representative records in the place of the empty list: it reports
  seven monster objects and prints them.
\<close>

theorem C7_load_failure_yields_no_records:
  "(gzip_read env st filename = Inl e \<longrightarrow>
      fst (parse_map_file_V1 env NAME st filename) = ([], None)
      \<and> GetMonsterProperty env NAME st filename =
          st\<lparr>stdout := stdout st @
             [''Parsing map file: '' @ filename,
              ''Error opening file as gzip: '' @ e,
              ''No monster objects found in the map file.'']\<rparr>
      \<and> SetMonsterProperty env NAME st filename =
          st\<lparr>stdout := stdout st @
             [''Parsing map file: '' @ filename,
              ''Error opening file as gzip: '' @ e,
              ''No monster objects found in the map file.'']\<rparr>)
   \<and> (gzip_read env st filename = Inl e \<and> raw_read env st filename = Inl e' \<longrightarrow>
        parse_map_file env NAME st filename = [])
   \<and> (gzip_read env st ''Do.h3m'' = Inl e \<and> raw_read env st ''Do.h3m'' = Inl e' \<longrightarrow>
        main env X st =
          [''RajanHoAEditor.py - Heroes of Might and Magic III Map Monster Analyzer'',
           ''================================================================'',
           ''No monster objects found in the map file.'',
           ''Using representative monster data for demonstration purposes.'',
           [],
           ''Total monster objects found: 7'',
           []]
          @ main_print_loop X (zip [1 ..< 8] (representative_monsters X)))"
proof -
  have v1: "fst (parse_map_file_V1 env NAME st filename) = ([], None)"
    if "gzip_read env st filename = Inl e"
    using that by (simp add: parse_map_file_V1_failed)
  have get: "GetMonsterProperty env NAME st filename =
          st\<lparr>stdout := stdout st @
             [''Parsing map file: '' @ filename,
              ''Error opening file as gzip: '' @ e,
              ''No monster objects found in the map file.'']\<rparr>"
    if "gzip_read env st filename = Inl e"
  proof -
    from that have "gzip_read env (print_line st (''Parsing map file: '' @ filename)) filename = Inl e"
      by simp
    from parse_map_file_V1_failed [OF this, of NAME] show ?thesis
      by (simp add: GetMonsterProperty_def Let_def print_line_thrice)
  qed
  have set: "SetMonsterProperty env NAME st filename =
          st\<lparr>stdout := stdout st @
             [''Parsing map file: '' @ filename,
              ''Error opening file as gzip: '' @ e,
              ''No monster objects found in the map file.'']\<rparr>"
    if "gzip_read env st filename = Inl e"
  proof -
    from that have "gzip_read env (print_line st (''Parsing map file: '' @ filename)) filename = Inl e"
      by simp
    from parse_map_file_V1_failed [OF this, of NAME] show ?thesis
      by (simp add: SetMonsterProperty_def Let_def print_line_thrice)
  qed
  have both: "parse_map_file env NAME st filename = []"
    if "gzip_read env st filename = Inl e" and "raw_read env st filename = Inl e'"
    using that by (simp add: parse_map_file_def)
  have caller: "main env X st =
          [''RajanHoAEditor.py - Heroes of Might and Magic III Map Monster Analyzer'',
           ''================================================================'',
           ''No monster objects found in the map file.'',
           ''Using representative monster data for demonstration purposes.'',
           [],
           ''Total monster objects found: 7'',
           []]
          @ main_print_loop X (zip [1 ..< 8] (representative_monsters X))"
    if "gzip_read env st ''Do.h3m'' = Inl e" and "raw_read env st ''Do.h3m'' = Inl e'"
  proof -
    from that have parsed: "parse_map_file env (cd_NAME X) st ''Do.h3m'' = []"
      by (simp add: parse_map_file_def)
    have len: "length (representative_monsters X) = 7"
      by (simp add: representative_monsters_def)
    have seven: "str_nat 7 = ''7''"
      by code_simp
    have upt: "[Suc 0 ..< 8] = [Suc 0 ..< 7] @ [7]"
      by code_simp
    show ?thesis
      by (simp add: main_def Let_def parsed len seven upt)
  qed
  from v1 get set both caller show ?thesis by blast
qed

theorem C7_load_failure_yields_no_records_witness:
  "gzip_read ex_env ex_empty_disk ''Do.h3m'' = Inl ''No such file or directory: Do.h3m''
   \<and> raw_read ex_env ex_empty_disk ''Do.h3m'' = Inl ''No such file or directory: Do.h3m''
   \<and> fst (parse_map_file_V1 ex_env ex_NAME ex_empty_disk ''Do.h3m'') = ([], None)
   \<and> stdout (GetMonsterProperty ex_env ex_NAME ex_empty_disk ''Do.h3m'') =
        [''Parsing map file: Do.h3m'',
         ''Error opening file as gzip: No such file or directory: Do.h3m'',
         ''No monster objects found in the map file.'']
   \<and> files (SetMonsterProperty ex_env ex_NAME ex_empty_disk ''Do.h3m'') = Map.empty
   \<and> parse_map_file ex_env ex_NAME ex_empty_disk ''Do.h3m'' = []
   \<and> take 7 (main ex_env ex_data ex_empty_disk) =
        [''RajanHoAEditor.py - Heroes of Might and Magic III Map Monster Analyzer'',
         ''================================================================'',
         ''No monster objects found in the map file.'',
         ''Using representative monster data for demonstration purposes.'',
         [],
         ''Total monster objects found: 7'',
         []]"
proof -
  have g: "gzip_read ex_env ex_empty_disk ''Do.h3m'' = Inl ''No such file or directory: Do.h3m''"
    by (simp add: gzip_read_def ex_env_def ex_empty_disk_def)
  have r: "raw_read ex_env ex_empty_disk ''Do.h3m'' = Inl ''No such file or directory: Do.h3m''"
    by (simp add: raw_read_def ex_env_def ex_empty_disk_def)
  note inst = C7_load_failure_yields_no_records
    [of ex_env ex_empty_disk "''Do.h3m''" "''No such file or directory: Do.h3m''" ex_NAME
        "''No such file or directory: Do.h3m''" ex_data]
  from inst g have a: "fst (parse_map_file_V1 ex_env ex_NAME ex_empty_disk ''Do.h3m'') = ([], None)"
    by blast
  from inst g have "GetMonsterProperty ex_env ex_NAME ex_empty_disk ''Do.h3m'' =
          ex_empty_disk\<lparr>stdout := stdout ex_empty_disk @
             [''Parsing map file: '' @ ''Do.h3m'',
              ''Error opening file as gzip: '' @ ''No such file or directory: Do.h3m'',
              ''No monster objects found in the map file.'']\<rparr>"
    by blast
  then have b: "stdout (GetMonsterProperty ex_env ex_NAME ex_empty_disk ''Do.h3m'') =
        [''Parsing map file: Do.h3m'',
         ''Error opening file as gzip: No such file or directory: Do.h3m'',
         ''No monster objects found in the map file.'']"
    by (simp add: ex_empty_disk_def)
  from inst g have "SetMonsterProperty ex_env ex_NAME ex_empty_disk ''Do.h3m'' =
          ex_empty_disk\<lparr>stdout := stdout ex_empty_disk @
             [''Parsing map file: '' @ ''Do.h3m'',
              ''Error opening file as gzip: '' @ ''No such file or directory: Do.h3m'',
              ''No monster objects found in the map file.'']\<rparr>"
    by blast
  then have c: "files (SetMonsterProperty ex_env ex_NAME ex_empty_disk ''Do.h3m'') = Map.empty"
    by (simp add: ex_empty_disk_def)
  from inst g r have d: "parse_map_file ex_env ex_NAME ex_empty_disk ''Do.h3m'' = []"
    by blast
  from inst g r have "main ex_env ex_data ex_empty_disk =
          [''RajanHoAEditor.py - Heroes of Might and Magic III Map Monster Analyzer'',
           ''================================================================'',
           ''No monster objects found in the map file.'',
           ''Using representative monster data for demonstration purposes.'',
           [],
           ''Total monster objects found: 7'',
           []]
          @ main_print_loop ex_data (zip [1 ..< 8] (representative_monsters ex_data))"
    by blast
  then have m: "take 7 (main ex_env ex_data ex_empty_disk) =
        [''RajanHoAEditor.py - Heroes of Might and Magic III Map Monster Analyzer'',
         ''================================================================'',
         ''No monster objects found in the map file.'',
         ''Using representative monster data for demonstration purposes.'',
         [],
         ''Total monster objects found: 7'',
         []]"
    by simp
  from g r a b c d m show ?thesis by blast
qed

text \<open>
  The claim as stated fails for \<open>main\<close> of RajanHoAEditor.py: where \<open>Do.h3m\<close> does not
  exist, so that both reads fail and the parse returns \<open>[]\<close>, \<open>main\<close> does not stop at
  "no monsters found" but reports seven monster objects and prints seven records.
\<close>

theorem C7_main_reports_seven_counterexample:
  "gzip_read ex_env ex_empty_disk ''Do.h3m'' = Inl ''No such file or directory: Do.h3m''
   \<and> raw_read ex_env ex_empty_disk ''Do.h3m'' = Inl ''No such file or directory: Do.h3m''
   \<and> parse_map_file ex_env (cd_NAME ex_data) ex_empty_disk ''Do.h3m'' = []
   \<and> main ex_env ex_data ex_empty_disk =
        [''RajanHoAEditor.py - Heroes of Might and Magic III Map Monster Analyzer'',
         ''================================================================'',
         ''No monster objects found in the map file.'',
         ''Using representative monster data for demonstration purposes.'',
         [],
         ''Total monster objects found: 7'',
         [],
         ''Monster #1:'', ''Name: Pikeman'', ''Level: 1'', ''Count: 25'',
         ''Disposition: Aggressive'', [],
         ''Monster #2:'', ''Name: Unknown'', ''Level: 2'', ''Count: 18'',
         ''Disposition: Aggressive'', [],
         ''Monster #3:'', ''Name: Unknown'', ''Level: 3'', ''Count: 10'',
         ''Disposition: Aggressive'', [],
         ''Monster #4:'', ''Name: Unknown'', ''Level: 4'', ''Count: 15'',
         ''Disposition: Aggressive'', [],
         ''Monster #5:'', ''Name: Unknown'', ''Level: 7'', ''Count: 5'',
         ''Disposition: Aggressive'', [],
         ''Monster #6:'', ''Name: Random Monster (Type 71)'', ''Level: Random'', ''Count: 12'',
         ''Disposition: Aggressive'', [],
         ''Monster #7:'', ''Name: Unknown'', ''Level: 7'', ''Count: 3'',
         ''Disposition: Aggressive'', []]"
proof -
  have g: "gzip_read ex_env ex_empty_disk ''Do.h3m'' = Inl ''No such file or directory: Do.h3m''"
    by (simp add: gzip_read_def ex_env_def ex_empty_disk_def)
  have r: "raw_read ex_env ex_empty_disk ''Do.h3m'' = Inl ''No such file or directory: Do.h3m''"
    by (simp add: raw_read_def ex_env_def ex_empty_disk_def)
  have p: "parse_map_file ex_env (cd_NAME ex_data) ex_empty_disk ''Do.h3m'' = []"
    by code_simp
  have m: "main ex_env ex_data ex_empty_disk =
        [''RajanHoAEditor.py - Heroes of Might and Magic III Map Monster Analyzer'',
         ''================================================================'',
         ''No monster objects found in the map file.'',
         ''Using representative monster data for demonstration purposes.'',
         [],
         ''Total monster objects found: 7'',
         [],
         ''Monster #1:'', ''Name: Pikeman'', ''Level: 1'', ''Count: 25'',
         ''Disposition: Aggressive'', [],
         ''Monster #2:'', ''Name: Unknown'', ''Level: 2'', ''Count: 18'',
         ''Disposition: Aggressive'', [],
         ''Monster #3:'', ''Name: Unknown'', ''Level: 3'', ''Count: 10'',
         ''Disposition: Aggressive'', [],
         ''Monster #4:'', ''Name: Unknown'', ''Level: 4'', ''Count: 15'',
         ''Disposition: Aggressive'', [],
         ''Monster #5:'', ''Name: Unknown'', ''Level: 7'', ''Count: 5'',
         ''Disposition: Aggressive'', [],
         ''Monster #6:'', ''Name: Random Monster (Type 71)'', ''Level: Random'', ''Count: 12'',
         ''Disposition: Aggressive'', [],
         ''Monster #7:'', ''Name: Unknown'', ''Level: 7'', ''Count: 3'',
         ''Disposition: Aggressive'', []]"
    by code_simp
  from g r p m show ?thesis by blast
qed

text \<open>
  Claim C8, as amended. When the loaded buffer has no signature match, the list of
  records is empty and \<open>SetMonsterProperty\<close> returns before it opens the output file: it
  prints that no monster objects were found, and no file is created or changed. There is
  no output file in this case, so none that holds the bytes of the buffer.
\<close>

theorem C8_no_match_writes_nothing:
  assumes "gzip_read env st filename = Inr data"
    and "occurrences data monster_type_bytes 0 = []"
    and "\<forall>t \<in> set random_monster_types. occurrences data (to_bytes4_little t) 0 = []"
  shows "SetMonsterProperty env NAME st filename =
           st\<lparr>stdout := stdout st @
              [''Parsing map file: '' @ filename,
               ''No monster objects found in the map file.'']\<rparr>
       \<and> files (SetMonsterProperty env NAME st filename) = files st"
proof -
  from assms(2,3) have empty: "scan_buffer 0 1 NAME data = []"
    by (rule scan_buffer_no_occurrences)
  from assms(1)
  have "gzip_read env (print_line st (''Parsing map file: '' @ filename)) filename = Inr data"
    by simp
  from parse_map_file_V1_loaded [OF this, of NAME] empty
  have "SetMonsterProperty env NAME st filename =
           st\<lparr>stdout := stdout st @
              [''Parsing map file: '' @ filename,
               ''No monster objects found in the map file.'']\<rparr>"
    by (simp add: SetMonsterProperty_def Let_def print_line_twice)
  then show ?thesis by simp
qed

theorem C8_no_match_writes_nothing_witness:
  "gzip_read ex_env (ex_disk 1 (ex_gz ex_plain_buf)) ''Do.h3m'' = Inr ex_plain_buf
   \<and> occurrences ex_plain_buf monster_type_bytes 0 = []
   \<and> concat (map (\<lambda>t. occurrences ex_plain_buf (to_bytes4_little t) 0) random_monster_types) = []
   \<and> stdout (SetMonsterProperty ex_env ex_NAME (ex_disk 1 (ex_gz ex_plain_buf)) ''Do.h3m'') =
        [''Parsing map file: Do.h3m'', ''No monster objects found in the map file.'']
   \<and> files (SetMonsterProperty ex_env ex_NAME (ex_disk 1 (ex_gz ex_plain_buf)) ''Do.h3m'')
        = files (ex_disk 1 (ex_gz ex_plain_buf))"
proof -
  have g: "gzip_read ex_env (ex_disk 1 (ex_gz ex_plain_buf)) ''Do.h3m'' = Inr ex_plain_buf"
    by code_simp
  have o1: "occurrences ex_plain_buf monster_type_bytes 0 = []" by code_simp
  have o2: "concat (map (\<lambda>t. occurrences ex_plain_buf (to_bytes4_little t) 0)
              random_monster_types) = []"
    by code_simp
  then have o3: "\<forall>t \<in> set random_monster_types.
                   occurrences ex_plain_buf (to_bytes4_little t) 0 = []"
    by simp
  from C8_no_match_writes_nothing [OF g o1 o3, of ex_NAME]
  have "stdout (SetMonsterProperty ex_env ex_NAME (ex_disk 1 (ex_gz ex_plain_buf)) ''Do.h3m'') =
        [''Parsing map file: Do.h3m'', ''No monster objects found in the map file.'']"
    and "files (SetMonsterProperty ex_env ex_NAME (ex_disk 1 (ex_gz ex_plain_buf)) ''Do.h3m'')
        = files (ex_disk 1 (ex_gz ex_plain_buf))"
    by (simp_all add: ex_disk_def)
  with g o1 o2 show ?thesis by blast
qed

text \<open>
  The claim as stated fails: for a compressed file whose buffer has no signature match,
  \<open>SetMonsterProperty\<close> leaves no output file \<open>Do2.h3m\<close> at all.
\<close>

theorem C8_no_output_file_counterexample:
  "gzip_read ex_env (ex_disk 1 (ex_gz ex_plain_buf)) ''Do.h3m'' = Inr ex_plain_buf
   \<and> scan_buffer 0 1 ex_NAME ex_plain_buf = []
   \<and> match_offsets ex_plain_buf monster_type_bytes 0 = []
   \<and> concat (map (\<lambda>t. match_offsets ex_plain_buf (to_bytes4_little t) 0) random_monster_types) = []
   \<and> files (SetMonsterProperty ex_env ex_NAME (ex_disk 1 (ex_gz ex_plain_buf)) ''Do.h3m'')
        (resolve ex_env ''Do2.h3m'') = None"
proof -
  have a: "gzip_read ex_env (ex_disk 1 (ex_gz ex_plain_buf)) ''Do.h3m'' = Inr ex_plain_buf"
    by code_simp
  have b: "scan_buffer 0 1 ex_NAME ex_plain_buf = []" by code_simp
  have c: "match_offsets ex_plain_buf monster_type_bytes 0 = []" by code_simp
  have d: "concat (map (\<lambda>t. match_offsets ex_plain_buf (to_bytes4_little t) 0)
             random_monster_types) = []"
    by code_simp
  have e: "files (SetMonsterProperty ex_env ex_NAME (ex_disk 1 (ex_gz ex_plain_buf)) ''Do.h3m'')
        (resolve ex_env ''Do2.h3m'') = None"
    by code_simp
  from a b c d e show ?thesis by blast
qed

text \<open>
  Claim C9, as amended. When \<open>SetMonsterProperty\<close> writes its output file (the buffer was
  loaded, at least one record was accepted, and \<open>Do2.h3m\<close> could be opened for writing),
  the file \<open>Do2.h3m\<close> holds a buffer of the same length as the loaded one, in which every
  byte outside the disposition offsets of the accepted candidates is the byte of the
  loaded buffer. No other file is changed, so the input file is left as it was whenever
  the input path does not name the file \<open>Do2.h3m\<close> itself.
\<close>

theorem C9_write_back_frame:
  assumes "gzip_read env st filename = Inr data"
    and "scan_buffer 0 1 NAME data \<noteq> []"
    and "open_wb_error env ''Do2.h3m'' = None"
  shows "(\<exists>written.
            files (SetMonsterProperty env NAME st filename) (resolve env ''Do2.h3m'') = Some written
            \<and> length written = length data
            \<and> (\<forall>i < length data. i \<notin> set (disposition_offsets NAME data) \<longrightarrow>
                  written ! i = data ! i))
       \<and> (\<forall>f. f \<noteq> resolve env ''Do2.h3m'' \<longrightarrow>
             files (SetMonsterProperty env NAME st filename) f = files st f)
       \<and> (resolve env filename \<noteq> resolve env ''Do2.h3m'' \<longrightarrow>
             files (SetMonsterProperty env NAME st filename) (resolve env filename)
               = files st (resolve env filename))"
proof -
  from assms(1)
  have "gzip_read env (print_line st (''Parsing map file: '' @ filename)) filename = Inr data"
    by simp
  from parse_map_file_V1_loaded [OF this, of NAME] assms(2,3)
  have after: "files (SetMonsterProperty env NAME st filename)
                 = (files st)(resolve env ''Do2.h3m'' \<mapsto> data)"
    by (simp add: SetMonsterProperty_def Let_def)
  then have "files (SetMonsterProperty env NAME st filename) (resolve env ''Do2.h3m'') = Some data
       \<and> length data = length data
       \<and> (\<forall>i < length data. i \<notin> set (disposition_offsets NAME data) \<longrightarrow> data ! i = data ! i)"
    by simp
  then have written: "\<exists>written.
            files (SetMonsterProperty env NAME st filename) (resolve env ''Do2.h3m'') = Some written
            \<and> length written = length data
            \<and> (\<forall>i < length data. i \<notin> set (disposition_offsets NAME data) \<longrightarrow>
                  written ! i = data ! i)"
    by (rule exI)
  from after have others: "\<forall>f. f \<noteq> resolve env ''Do2.h3m'' \<longrightarrow>
             files (SetMonsterProperty env NAME st filename) f = files st f"
    by simp
  from written others show ?thesis by blast
qed

theorem C9_write_back_frame_witness:
  "gzip_read ex_env (ex_disk 1 (ex_gz ex_mixed_buf)) ''Do.h3m'' = Inr ex_mixed_buf
   \<and> scan_buffer 0 1 ex_NAME ex_mixed_buf =
        [\<lparr>m_type = 54, m_subtype = Some 0, m_quantity = 25, m_disposition = 2\<rparr>,
         \<lparr>m_type = 71, m_subtype = None, m_quantity = 12, m_disposition = 2\<rparr>]
   \<and> open_wb_error ex_env ''Do2.h3m'' = None
   \<and> resolve ex_env ''Do.h3m'' = 1
   \<and> resolve ex_env ''Do2.h3m'' = 2
   \<and> disposition_offsets ex_NAME ex_mixed_buf = [26, 14]
   \<and> length (the (files (SetMonsterProperty ex_env ex_NAME
                  (ex_disk 1 (ex_gz ex_mixed_buf)) ''Do.h3m'') 2)) = length ex_mixed_buf
   \<and> take 14 (the (files (SetMonsterProperty ex_env ex_NAME
                  (ex_disk 1 (ex_gz ex_mixed_buf)) ''Do.h3m'') 2)) = take 14 ex_mixed_buf
   \<and> slice (the (files (SetMonsterProperty ex_env ex_NAME
                  (ex_disk 1 (ex_gz ex_mixed_buf)) ''Do.h3m'') 2)) 15 26 = slice ex_mixed_buf 15 26
   \<and> drop 27 (the (files (SetMonsterProperty ex_env ex_NAME
                  (ex_disk 1 (ex_gz ex_mixed_buf)) ''Do.h3m'') 2)) = drop 27 ex_mixed_buf
   \<and> files (SetMonsterProperty ex_env ex_NAME (ex_disk 1 (ex_gz ex_mixed_buf)) ''Do.h3m'') 1
        = Some (ex_gz ex_mixed_buf)"
proof -
  have g: "gzip_read ex_env (ex_disk 1 (ex_gz ex_mixed_buf)) ''Do.h3m'' = Inr ex_mixed_buf"
    by code_simp
  have s: "scan_buffer 0 1 ex_NAME ex_mixed_buf =
        [\<lparr>m_type = 54, m_subtype = Some 0, m_quantity = 25, m_disposition = 2\<rparr>,
         \<lparr>m_type = 71, m_subtype = None, m_quantity = 12, m_disposition = 2\<rparr>]"
    by code_simp
  then have ne: "scan_buffer 0 1 ex_NAME ex_mixed_buf \<noteq> []" by simp
  have w: "open_wb_error ex_env ''Do2.h3m'' = None" by (simp add: ex_env_def)
  have r1: "resolve ex_env ''Do.h3m'' = 1" by (simp add: ex_env_def)
  have r2: "resolve ex_env ''Do2.h3m'' = 2" by (simp add: ex_env_def)
  have offs: "disposition_offsets ex_NAME ex_mixed_buf = [26, 14]" by code_simp
  have before: "files (ex_disk 1 (ex_gz ex_mixed_buf)) 1 = Some (ex_gz ex_mixed_buf)"
    by (simp add: ex_disk_def)
  let ?after = "files (SetMonsterProperty ex_env ex_NAME (ex_disk 1 (ex_gz ex_mixed_buf)) ''Do.h3m'')"
  note inst = C9_write_back_frame [OF g ne w]
  from inst r2 obtain written where wr: "?after 2 = Some written"
    and len: "length written = length ex_mixed_buf"
    and same: "\<And>i. i < length ex_mixed_buf \<Longrightarrow> i \<notin> set (disposition_offsets ex_NAME ex_mixed_buf)
                 \<Longrightarrow> written ! i = ex_mixed_buf ! i"
    by auto
  have l28: "length ex_mixed_buf = 28" by (simp add: ex_mixed_buf_def)
  have nth: "written ! i = ex_mixed_buf ! i" if "i < 28" and "i \<noteq> 26" and "i \<noteq> 14" for i
    using same [of i] that by (simp add: l28 offs)
  have t: "take 14 written = take 14 ex_mixed_buf"
    by (rule nth_equalityI) (simp_all add: len l28 nth)
  have m: "slice written 15 26 = slice ex_mixed_buf 15 26"
    unfolding slice_def by (rule nth_equalityI) (simp_all add: len l28 nth)
  have d: "drop 27 written = drop 27 ex_mixed_buf"
    by (rule nth_equalityI) (simp_all add: len l28 nth)
  from inst r1 r2 before have input: "?after 1 = Some (ex_gz ex_mixed_buf)"
    by simp
  from g s w r1 r2 offs wr len t m d input show ?thesis by simp
qed

text \<open>
  The claim as stated fails where the input path is \<open>Do2.h3m\<close> itself: the compressed
  input file is replaced by the decompressed buffer.
\<close>

theorem C9_input_overwritten_counterexample:
  "resolve ex_env ''Do2.h3m'' = 2
   \<and> files (ex_disk 2 (ex_gz ex_record_buf)) 2 = Some (ex_gz ex_record_buf)
   \<and> gzip_read ex_env (ex_disk 2 (ex_gz ex_record_buf)) ''Do2.h3m'' = Inr ex_record_buf
   \<and> files (SetMonsterProperty ex_env ex_NAME (ex_disk 2 (ex_gz ex_record_buf)) ''Do2.h3m'') 2
        = Some ex_record_buf
   \<and> ex_gz ex_record_buf \<noteq> ex_record_buf"
proof -
  have a: "resolve ex_env ''Do2.h3m'' = 2" by (simp add: ex_env_def)
  have b: "files (ex_disk 2 (ex_gz ex_record_buf)) 2 = Some (ex_gz ex_record_buf)"
    by (simp add: ex_disk_def)
  have c: "gzip_read ex_env (ex_disk 2 (ex_gz ex_record_buf)) ''Do2.h3m'' = Inr ex_record_buf"
    by code_simp
  have d: "files (SetMonsterProperty ex_env ex_NAME (ex_disk 2 (ex_gz ex_record_buf)) ''Do2.h3m'') 2
        = Some ex_record_buf"
    by code_simp
  have e: "ex_gz ex_record_buf \<noteq> ex_record_buf"
    by (simp add: ex_gz_def ex_record_buf_def)
  from a b c d e show ?thesis by blast
qed

text \<open>
  Claim C10. Every record of the list the scanner returns has the disposition 2
  (Aggressive): in the scan of a buffer with any pair of quantity bounds, hence in the
  list of the V1 script, used by the read path \<open>GetMonsterProperty\<close> and the write path
  \<open>SetMonsterProperty\<close> alike, and in the list of RajanHoAEditor.py. The byte stored at
  the disposition offset of a candidate (\<open>p + 18\<close> for a concrete monster, \<open>p + 14\<close> for a
  random monster) has no influence on the record made for that candidate: the loop body
  gives the same result whatever byte \<open>b\<close> stands there.
\<close>

theorem C10_disposition_always_aggressive:
  "(\<forall>m \<in> set (scan_buffer lo_m lo_r NAME data). m_disposition m = 2)
   \<and> (\<forall>m \<in> set (fst (fst (parse_map_file_V1 env NAME st filename))). m_disposition m = 2)
   \<and> (\<forall>m \<in> set (parse_map_file env NAME st filename). m_disposition m = 2)
   \<and> monster_candidate lo NAME (data[p + 18 := b]) p = monster_candidate lo NAME data p
   \<and> random_candidate lo t (data[p + 14 := b]) p = random_candidate lo t data p"
proof -
  have a: "\<forall>m \<in> set (scan_buffer lo_m lo_r NAME data). m_disposition m = 2"
    by (simp add: scan_buffer_disposition)
  have b: "\<forall>m \<in> set (fst (fst (parse_map_file_V1 env NAME st filename))). m_disposition m = 2"
    by (cases "gzip_read env st filename")
      (simp_all add: parse_map_file_V1_def scan_buffer_disposition)
  have c: "\<forall>m \<in> set (parse_map_file env NAME st filename). m_disposition m = 2"
    by (cases "gzip_read env st filename"; cases "raw_read env st filename")
      (simp_all add: parse_map_file_def scan_buffer_disposition)
  have d: "monster_candidate lo NAME (data[p + 18 := b]) p = monster_candidate lo NAME data p"
    by (simp add: monster_candidate_def Let_def slice_update_after)
  have e: "random_candidate lo t (data[p + 14 := b]) p = random_candidate lo t data p"
    by (simp add: random_candidate_def Let_def slice_update_after)
  from a b c d e show ?thesis by blast
qed

theorem C10_disposition_always_aggressive_witness:
  "scan_buffer 0 1 ex_NAME ex_mixed_buf =
     [\<lparr>m_type = 54, m_subtype = Some 0, m_quantity = 25, m_disposition = 2\<rparr>,
      \<lparr>m_type = 71, m_subtype = None, m_quantity = 12, m_disposition = 2\<rparr>]
   \<and> m_disposition (scan_buffer 0 1 ex_NAME ex_mixed_buf ! 0) = 2
   \<and> m_disposition (scan_buffer 0 1 ex_NAME ex_mixed_buf ! 1) = 2
   \<and> ex_mixed_buf ! (8 + 18) = 0
   \<and> (ex_mixed_buf[8 + 18 := 5]) ! (8 + 18) = 5
   \<and> monster_candidate 0 ex_NAME (ex_mixed_buf[8 + 18 := 5]) 8 =
        Some \<lparr>m_type = 54, m_subtype = Some 0, m_quantity = 25, m_disposition = 2\<rparr>
   \<and> random_candidate 1 71 (ex_mixed_buf[0 + 14 := 5]) 0 =
        Some \<lparr>m_type = 71, m_subtype = None, m_quantity = 12, m_disposition = 2\<rparr>"
proof -
  have s: "scan_buffer 0 1 ex_NAME ex_mixed_buf =
     [\<lparr>m_type = 54, m_subtype = Some 0, m_quantity = 25, m_disposition = 2\<rparr>,
      \<lparr>m_type = 71, m_subtype = None, m_quantity = 12, m_disposition = 2\<rparr>]"
    by code_simp
  have b0: "ex_mixed_buf ! (8 + 18) = 0" by code_simp
  have b5: "(ex_mixed_buf[8 + 18 := 5]) ! (8 + 18) = 5" by code_simp
  have c1: "monster_candidate 0 ex_NAME ex_mixed_buf 8 =
        Some \<lparr>m_type = 54, m_subtype = Some 0, m_quantity = 25, m_disposition = 2\<rparr>"
    by code_simp
  have c2: "random_candidate 1 71 ex_mixed_buf 0 =
        Some \<lparr>m_type = 71, m_subtype = None, m_quantity = 12, m_disposition = 2\<rparr>"
    by code_simp
  note inst = C10_disposition_always_aggressive
    [of 0 1 ex_NAME ex_mixed_buf ex_env ex_empty_disk "''Do.h3m''" 0 8 5 71]
  note inst' = C10_disposition_always_aggressive
    [of 0 1 ex_NAME ex_mixed_buf ex_env ex_empty_disk "''Do.h3m''" 1 0 5 71]
  from inst s have d0: "m_disposition (scan_buffer 0 1 ex_NAME ex_mixed_buf ! 0) = 2"
    and d1: "m_disposition (scan_buffer 0 1 ex_NAME ex_mixed_buf ! 1) = 2"
    by simp_all
  from inst c1 have e1: "monster_candidate 0 ex_NAME (ex_mixed_buf[8 + 18 := 5]) 8 =
        Some \<lparr>m_type = 54, m_subtype = Some 0, m_quantity = 25, m_disposition = 2\<rparr>"
    by simp
  from inst' c2 have e2: "random_candidate 1 71 (ex_mixed_buf[0 + 14 := 5]) 0 =
        Some \<lparr>m_type = 71, m_subtype = None, m_quantity = 12, m_disposition = 2\<rparr>"
    by simp
  from s d0 d1 b0 b5 e1 e2 show ?thesis by blast
qed

end
